theory Spec2Isabelle
  imports Complex_Main
begin

section \<open>Conventions of the embedding\<close>

text \<open>
  The development embeds the pricing, ledger and signal code of the trading agent
  (\<^verbatim>\<open>RITC/base/Portfolio.py\<close>, \<^verbatim>\<open>RITC/base/OrderBook.py\<close>,
  \<^verbatim>\<open>base/ApiTrading.py\<close>, \<^verbatim>\<open>ALGO/ArbitrageStrategy.py\<close>).

  \<^item> Python numbers (\<^verbatim>\<open>float\<close>, and \<^verbatim>\<open>int\<close> where the two mix) are exact
    reals: rounding of IEEE arithmetic is not part of the model. The only IEEE values
    that the code relies on, the default limit \<^verbatim>\<open>float('inf')\<close> and what its
    products with the usage fraction give, are modelled by the types \<open>limit\<close> and
    \<open>pyfloat\<close> below.
  \<^item> Every \<^verbatim>\<open>raise\<close>, and every exception the interpreter throws on the paths
    modelled, is a value \<open>Inl e\<close> of the result type \<open>error + 'a\<close>.
  \<^item> Strings are ASCII; \<^verbatim>\<open>str.upper\<close> and \<^verbatim>\<open>str.lower\<close> act on the letters
    \<^verbatim>\<open>a-z\<close> and \<^verbatim>\<open>A-Z\<close>.
\<close>

datatype error =
  KeyError | ValueError | TypeError | ZeroDivisionError | AttributeError | OverflowError

definition upper_char :: "char \<Rightarrow> char" where
  "upper_char c =
     (let n = (of_char c :: nat) in if 97 \<le> n \<and> n \<le> 122 then char_of (n - 32) else c)"

definition lower_char :: "char \<Rightarrow> char" where
  "lower_char c =
     (let n = (of_char c :: nat) in if 65 \<le> n \<and> n \<le> 90 then char_of (n + 32) else c)"

definition upper :: "string \<Rightarrow> string" where
  "upper s = map upper_char s"

definition lower :: "string \<Rightarrow> string" where
  "lower s = map lower_char s"

section \<open>The currency ledger: \<^verbatim>\<open>BankAccount\<close>\<close>

text \<open>
  \<^verbatim>\<open>exchange_rates: Dict[str, Dict[str, Dict[str, float]]]\<close>: the innermost
  dictionary is only ever created with the two keys \<^verbatim>\<open>"bid"\<close> and \<^verbatim>\<open>"ask"\<close>,
  so it is a record.
\<close>

record rate =
  bid :: real
  ask :: real

record bank_account =
  main_currency :: string
  exchange_rates :: "string \<rightharpoonup> (string \<rightharpoonup> rate)"

text \<open>
  \<^verbatim>\<open>self.exchange_rates[b][q]\<close>: \<open>None\<close> is the \<^verbatim>\<open>KeyError\<close> of either index.
\<close>

definition direct_rate :: "bank_account \<Rightarrow> string \<Rightarrow> string \<Rightarrow> rate option" where
  "direct_rate acct b q = (case exchange_rates acct b of None \<Rightarrow> None | Some m \<Rightarrow> m q)"

text \<open>
  \<^verbatim>\<open>self.exchange_rates[base_currency.upper()] =
      {quote_currency.upper(): {"bid": bid_rate, "ask": ask_rate}}\<close>
\<close>

definition set_foreign_exchange_rate ::
  "bank_account \<Rightarrow> string \<Rightarrow> string \<Rightarrow> real \<Rightarrow> real \<Rightarrow> bank_account" where
  "set_foreign_exchange_rate acct base_currency quote_currency bid_rate ask_rate =
     acct\<lparr>exchange_rates := (exchange_rates acct)
       (upper base_currency \<mapsto> [upper quote_currency \<mapsto> \<lparr>bid = bid_rate, ask = ask_rate\<rparr>])\<rparr>"

text \<open>
  \<^verbatim>\<open>get_exchange_rate\<close>: equal currencies give 1 before the action is validated; the
  direct entry gives the bid for \<^verbatim>\<open>'sell'\<close> and the ask otherwise; a missing direct
  entry is resolved by inverting the reverse entry on the opposite side; the division
  \<^verbatim>\<open>1 / rate\<close> raises \<^verbatim>\<open>ZeroDivisionError\<close> on a zero rate, which the
  \<^verbatim>\<open>except KeyError\<close> does not catch.
\<close>

definition get_exchange_rate ::
  "bank_account \<Rightarrow> string \<Rightarrow> string \<Rightarrow> string \<Rightarrow> error + real" where
  "get_exchange_rate acct base_currency quote_currency action =
     (let action = lower action;
          base_currency = upper base_currency;
          quote_currency = upper quote_currency
      in if base_currency = quote_currency then Inr 1
         else if action \<notin> set [''buy'', ''sell''] then Inl ValueError
         else (case direct_rate acct base_currency quote_currency of
                 Some r \<Rightarrow> Inr (if action = ''sell'' then bid r else ask r)
               | None \<Rightarrow>
                  (case direct_rate acct quote_currency base_currency of
                     Some r \<Rightarrow>
                       (let d = (if action = ''sell'' then ask r else bid r)
                        in if d = 0 then Inl ZeroDivisionError else Inr (1 / d))
                   | None \<Rightarrow> Inl ValueError)))"

text \<open>
  \<^verbatim>\<open>currency_value_conversion\<close>: the rate is looked up with \<^verbatim>\<open>action='buy'\<close> when
  \<^verbatim>\<open>initial_value > 0\<close> and with \<^verbatim>\<open>action='sell'\<close> otherwise; the result is
  \<^verbatim>\<open>initial_value / rate\<close>.
\<close>

definition currency_value_conversion ::
  "bank_account \<Rightarrow> string \<Rightarrow> string \<Rightarrow> real \<Rightarrow> error + real" where
  "currency_value_conversion acct from_currency to_currency initial_value =
     (case (if initial_value > 0
            then get_exchange_rate acct from_currency to_currency ''buy''
            else get_exchange_rate acct from_currency to_currency ''sell'') of
        Inl e \<Rightarrow> Inl e
      | Inr rate \<Rightarrow> if rate = 0 then Inl ZeroDivisionError else Inr (initial_value / rate))"

definition currency_value_conversion_targetamount ::
  "bank_account \<Rightarrow> string \<Rightarrow> string \<Rightarrow> real \<Rightarrow> error + real" where
  "currency_value_conversion_targetamount acct from_currency to_currency target_value =
     (case get_exchange_rate acct from_currency to_currency ''buy'' of
        Inl e \<Rightarrow> Inl e
      | Inr rate \<Rightarrow> Inr (target_value * rate))"

text \<open>A table quoting USD in CAD at bid 1 and ask 2, and nothing else.\<close>

definition fx_example :: bank_account where
  "fx_example = \<lparr>main_currency = ''CAD'',
     exchange_rates = [''CAD'' \<mapsto> [''USD'' \<mapsto> \<lparr>bid = 1, ask = 2\<rparr>]]\<rparr>"

section \<open>The order book: \<^verbatim>\<open>Order\<close>, \<^verbatim>\<open>OrderBook\<close>, \<^verbatim>\<open>ExtendOrderBook\<close>\<close>

text \<open>
  The dataclass \<^verbatim>\<open>Order\<close> without its two link fields; \<open>volume\<close> is the resting
  volume \<^verbatim>\<open>initial_volume - filled_volume\<close> that \<^verbatim>\<open>__post_init__\<close> computes.
  \<open>new_Order\<close> is the construction of an \<^verbatim>\<open>Order(...)\<close> followed by
  \<^verbatim>\<open>__post_init__\<close>.
\<close>

record order =
  price :: real
  volume :: real
  filled_volume :: real
  order_type :: string
  timestamp :: "int option"
  order_id :: "int option"
  price_type :: string
  vwap :: "real option"
  initial_volume :: real

definition new_Order ::
  "real \<Rightarrow> real \<Rightarrow> real \<Rightarrow> string \<Rightarrow> int option \<Rightarrow> int option \<Rightarrow> string \<Rightarrow> real option
   \<Rightarrow> error + order" where
  "new_Order p v fv ot ts i pt vw =
     (let ot = lower ot; pt = lower pt
      in if ot \<notin> set [''bid'', ''ask''] then Inl ValueError
         else if pt \<notin> set [''limit'', ''market''] then Inl ValueError
         else Inr \<lparr>order.price = p, order.volume = v - fv, filled_volume = fv,
                   order.order_type = ot, timestamp = ts, order_id = i, price_type = pt,
                   vwap = vw, initial_volume = v\<rparr>)"

text \<open>
  Each side of the book is the chain of orders reached from its head through
  \<^verbatim>\<open>next\<close>: \<open>bid_head\<close> and \<open>ask_head\<close> are these chains, \<open>[]\<close> for the head
  \<^verbatim>\<open>None\<close>. The price maps and the histories of the book are not read by the
  functions embedded here and are left out.
\<close>

record order_book =
  bid_head :: "order list"
  ask_head :: "order list"
  transaction_fee :: real
  rebate_fee :: real
  currency :: string

text \<open>
  \<^verbatim>\<open>_insert_ask\<close> and \<^verbatim>\<open>_insert_bid\<close> on the chain of a side, for an order that is
  in no chain yet. The loop \<^verbatim>\<open>while current and current.price < order.price\<close> (for
  a bid: \<^verbatim>\<open>>\<close>) stops at the first order \<open>current\<close> that is not strictly better.
  When there is none the order is linked after the last order. When \<open>current\<close> is
  not the head, the order is linked between \<^verbatim>\<open>current.prev\<close> and \<open>current\<close>. When
  \<open>current\<close> is the head, the order is linked before it but the head reference is
  not moved, so the chain reached from the head is as before.
\<close>

definition insert_chain :: "(real \<Rightarrow> real \<Rightarrow> bool) \<Rightarrow> order list \<Rightarrow> order \<Rightarrow> order list" where
  "insert_chain better chain ord =
     (case chain of
        [] \<Rightarrow> [ord]
      | head # _ \<Rightarrow>
         (let before = takeWhile (\<lambda>current. better (order.price current) (order.price ord))
                         chain;
              rest = dropWhile (\<lambda>current. better (order.price current) (order.price ord))
                         chain
          in if rest = [] then chain @ [ord]
             else if before = [] then chain
             else before @ [ord] @ rest))"

definition insert_order :: "order_book \<Rightarrow> order \<Rightarrow> order_book" where
  "insert_order book ord =
     (if order.order_type ord = ''bid''
      then book\<lparr>bid_head := insert_chain (\<lambda>a b. a > b) (bid_head book) ord\<rparr>
      else if order.order_type ord = ''ask''
      then book\<lparr>ask_head := insert_chain (\<lambda>a b. a < b) (ask_head book) ord\<rparr>
      else book)"

text \<open>\<^verbatim>\<open>get_total_bid_volume\<close>, \<^verbatim>\<open>get_total_ask_volume\<close>: the running sum of the chain.\<close>

fun total_volume_loop :: "order list \<Rightarrow> real \<Rightarrow> real" where
  "total_volume_loop [] total_volume = total_volume"
| "total_volume_loop (current # rest) total_volume =
     total_volume_loop rest (total_volume + order.volume current)"

definition get_total_bid_volume :: "order_book \<Rightarrow> real" where
  "get_total_bid_volume book = total_volume_loop (bid_head book) 0"

definition get_total_ask_volume :: "order_book \<Rightarrow> real" where
  "get_total_ask_volume book = total_volume_loop (ask_head book) 0"

text \<open>
  The loop of \<^verbatim>\<open>calculate_vwap_market_price\<close>,
  \<^verbatim>\<open>while unfilled_quantity > 0 and current\<close>: it returns
  \<^verbatim>\<open>(total_cost, unfilled_quantity)\<close>.
\<close>

fun vwap_loop :: "order list \<Rightarrow> real \<Rightarrow> real \<Rightarrow> real \<times> real" where
  "vwap_loop [] total_cost unfilled_quantity = (total_cost, unfilled_quantity)"
| "vwap_loop (current # rest) total_cost unfilled_quantity =
     (if unfilled_quantity > 0
      then (if order.volume current < unfilled_quantity
            then vwap_loop rest (total_cost + order.price current * order.volume current)
                   (unfilled_quantity - order.volume current)
            else vwap_loop rest (total_cost + order.price current * unfilled_quantity) 0)
      else (total_cost, unfilled_quantity))"

text \<open>
  \<^verbatim>\<open>current = self.ask_head\<close> for a buy, \<^verbatim>\<open>self.bid_head\<close> otherwise: the side
  that an order of the given action consumes.
\<close>

definition side_head :: "order_book \<Rightarrow> string \<Rightarrow> order list" where
  "side_head book action = (if action = ''buy'' then ask_head book else bid_head book)"

text \<open>
  \<^verbatim>\<open>calculate_vwap_market_price\<close>: \<open>Inr None\<close> is the returned \<^verbatim>\<open>None\<close> (not
  enough depth); a quantity 0 reaches the division \<^verbatim>\<open>total_cost / quantity\<close> and
  raises \<^verbatim>\<open>ZeroDivisionError\<close>.
\<close>

definition calculate_vwap_market_price ::
  "order_book \<Rightarrow> real \<Rightarrow> string \<Rightarrow> bool \<Rightarrow> error + real option" where
  "calculate_vwap_market_price book quantity action consider_cost =
     (let action = lower action
      in if action \<notin> set [''buy'', ''sell''] then Inl ValueError
         else
           (case vwap_loop (side_head book action) 0 quantity of
              (total_cost, unfilled_quantity) \<Rightarrow>
                if unfilled_quantity > 0 then Inr None
                else if quantity = 0 then Inl ZeroDivisionError
                else if consider_cost
                  then (if action = ''buy''
                        then Inr (Some (total_cost / quantity + transaction_fee book))
                        else Inr (Some (total_cost / quantity - transaction_fee book)))
                  else Inr (Some (total_cost / quantity))))"

text \<open>
  The orders that the loop of \<^verbatim>\<open>calculate_vwap_market_price\<close> visits (the levels
  consumed), in the order of the chain.
\<close>

fun consumed :: "order list \<Rightarrow> real \<Rightarrow> order list" where
  "consumed [] unfilled_quantity = []"
| "consumed (current # rest) unfilled_quantity =
     (if unfilled_quantity > 0
      then current # (if order.volume current < unfilled_quantity
                      then consumed rest (unfilled_quantity - order.volume current)
                      else [])
      else [])"

text \<open>
  The dictionary \<^verbatim>\<open>{"order_type": ..., "price": ...}\<close> that
  \<^verbatim>\<open>limit_order_assistant\<close> returns, and the second loop of that function,
  \<^verbatim>\<open>while current and cumulative_volume < trade_volume\<close>, which returns
  \<^verbatim>\<open>limit_price\<close>.
\<close>

record advice =
  order_type :: string
  price :: "real option"

fun limit_price_loop :: "order list \<Rightarrow> real \<Rightarrow> real \<Rightarrow> real option \<Rightarrow> real option" where
  "limit_price_loop [] trade_volume cumulative_volume limit_price = limit_price"
| "limit_price_loop (current # rest) trade_volume cumulative_volume limit_price =
     (if cumulative_volume < trade_volume
      then limit_price_loop rest trade_volume (cumulative_volume + order.volume current)
             (Some (order.price current))
      else limit_price)"

text \<open>
  \<^verbatim>\<open>limit_order_assistant\<close>: reading \<^verbatim>\<open>.price\<close> of a head that is \<^verbatim>\<open>None\<close>
  raises \<^verbatim>\<open>AttributeError\<close>; \<^verbatim>\<open>if average_price\<close> is false for \<^verbatim>\<open>None\<close> and
  for 0, and then the slippage is infinite, above every tolerance.
\<close>

definition limit_order_assistant ::
  "order_book \<Rightarrow> real \<Rightarrow> string \<Rightarrow> real \<Rightarrow> error + advice" where
  "limit_order_assistant book trade_volume side slippage_tolerance =
     (if side \<notin> set [''buy'', ''sell''] then Inl ValueError
      else
        (case side_head book side of
           [] \<Rightarrow> Inl AttributeError
         | head # _ \<Rightarrow>
            (let market_price = order.price head
             in case calculate_vwap_market_price book trade_volume side False of
                  Inl e \<Rightarrow> Inl e
                | Inr average_price \<Rightarrow>
                    if (case average_price of
                          None \<Rightarrow> False
                        | Some a \<Rightarrow> a \<noteq> 0 \<and> \<bar>a - market_price\<bar> \<le> slippage_tolerance)
                    then Inr \<lparr>advice.order_type = ''market'', advice.price = None\<rparr>
                    else Inr \<lparr>advice.order_type = ''limit'',
                              advice.price = limit_price_loop (side_head book side)
                                trade_volume 0 None\<rparr>)))"

text \<open>
  \<^verbatim>\<open>calculate_total_profit\<close>: the market branch multiplies what
  \<^verbatim>\<open>calculate_vwap_market_price\<close> returned by the volume, so a returned \<^verbatim>\<open>None\<close>
  raises \<^verbatim>\<open>TypeError\<close>; so does the limit branch on \<^verbatim>\<open>price=None\<close>.
\<close>

definition calculate_total_profit ::
  "order_book \<Rightarrow> real \<Rightarrow> string \<Rightarrow> string \<Rightarrow> real option \<Rightarrow> error + real" where
  "calculate_total_profit book trade_volume ord_type action limit_price =
     (if ord_type \<notin> set [''market'', ''limit''] then Inl ValueError
      else if ord_type = ''market''
      then (case calculate_vwap_market_price book trade_volume
                   (if action = ''buy'' then ''buy'' else ''sell'') True of
              Inl e \<Rightarrow> Inl e
            | Inr None \<Rightarrow> Inl TypeError
            | Inr (Some p) \<Rightarrow> Inr (p * trade_volume))
      else (case limit_price of
              None \<Rightarrow> Inl TypeError
            | Some p \<Rightarrow>
                if action = ''buy''
                then Inr ((p + transaction_fee book - rebate_fee book) * trade_volume)
                else Inr ((p - transaction_fee book + rebate_fee book) * trade_volume)))"

text \<open>A resting limit order on one side, nothing filled.\<close>

definition resting :: "string \<Rightarrow> real \<Rightarrow> real \<Rightarrow> order" where
  "resting side p v = \<lparr>order.price = p, order.volume = v, filled_volume = 0,
     order.order_type = side, timestamp = None, order_id = None, price_type = ''limit'',
     vwap = None, initial_volume = v\<rparr>"

text \<open>The ask ladder \<^verbatim>\<open>[(10,100),(11,200)]\<close> over a bid ladder \<^verbatim>\<open>[(9,100),(8,200)]\<close>.\<close>

definition ladder_example :: order_book where
  "ladder_example = \<lparr>bid_head = [resting ''bid'' 9 100, resting ''bid'' 8 200],
     ask_head = [resting ''ask'' 10 100, resting ''ask'' 11 200],
     transaction_fee = 0, rebate_fee = 0, currency = ''CAD''\<rparr>"

section \<open>The arbitrage signals: \<^verbatim>\<open>ETFArbitrageStrategy\<close>\<close>

text \<open>
  The strategy object carries no state that the signals read except the optional
  attribute \<^verbatim>\<open>slippage_tolerance\<close>, read as
  \<^verbatim>\<open>getattr(self, "slippage_tolerance", 0)\<close>.
\<close>

record strategy =
  slippage_tolerance :: "real option"

definition get_slippage_tolerance :: "strategy \<Rightarrow> real" where
  "get_slippage_tolerance self =
     (case slippage_tolerance self of None \<Rightarrow> 0 | Some tol \<Rightarrow> tol)"

text \<open>
  \<^verbatim>\<open>tender_signal2\<close> returns the pair \<^verbatim>\<open>(signal, profit)\<close>. The VWAP is taken with
  \<^verbatim>\<open>consider_cost=True\<close> on the side of \<^verbatim>\<open>myaction\<close>; a VWAP \<^verbatim>\<open>None\<close> raises
  \<^verbatim>\<open>TypeError\<close> in the subtraction of either branch.
\<close>

definition tender_signal2 ::
  "string \<Rightarrow> real \<Rightarrow> real \<Rightarrow> order_book \<Rightarrow> real \<Rightarrow> real \<Rightarrow> error + (int \<times> real)" where
  "tender_signal2 tender_action tender_price tender_volume book buy_threshold sell_threshold =
     (let tender_action = lower tender_action;
          myaction = (if tender_action = ''sell'' then ''buy'' else ''sell'')
      in case calculate_vwap_market_price book tender_volume myaction True of
           Inl e \<Rightarrow> Inl e
         | Inr None \<Rightarrow> Inl TypeError
         | Inr (Some vwap_price) \<Rightarrow>
             if tender_action = ''buy''
             then (let profit = tender_price - vwap_price
                   in if profit > buy_threshold then Inr (1, profit) else Inr (0, 0))
             else (let profit = vwap_price - tender_price
                   in if profit > sell_threshold then Inr (1, profit) else Inr (0, 0)))"

text \<open>
  One leg of the list \<^verbatim>\<open>return_dict["order"]\<close>, and the dictionary
  \<^verbatim>\<open>{"profit": ..., "order": [...]}\<close> that \<^verbatim>\<open>calculate_converter_profit\<close> returns.
\<close>

record leg =
  ticker :: string
  order_type :: string
  price :: "real option"
  quantity :: real
  val :: real
  value_cad :: real

record profit_info =
  profit :: real
  legs :: "leg list"

text \<open>
  The loop \<^verbatim>\<open>for stock in stock_data\<close> of \<^verbatim>\<open>calculate_converter_profit\<close>, over the
  dictionary \<^verbatim>\<open>stock_data\<close> in its insertion order; it carries \<^verbatim>\<open>stock_value\<close> and the
  leg list.
\<close>

fun stock_loop ::
  "strategy \<Rightarrow> (string \<rightharpoonup> real) \<Rightarrow> real \<Rightarrow> string \<Rightarrow> bank_account
   \<Rightarrow> (string \<times> order_book) list \<Rightarrow> real \<Rightarrow> leg list \<Rightarrow> error + (real \<times> leg list)" where
  "stock_loop self weights qty action bank [] stock_value acc = Inr (stock_value, acc)"
| "stock_loop self weights qty action bank ((stock, book) # rest) stock_value acc =
     (case weights stock of
        None \<Rightarrow> Inl ValueError
      | Some w \<Rightarrow>
         (case limit_order_assistant book qty action (get_slippage_tolerance self) of
            Inl e \<Rightarrow> Inl e
          | Inr result \<Rightarrow>
             (case calculate_total_profit book (qty * w) (advice.order_type result) action
                     (advice.price result) of
                Inl e \<Rightarrow> Inl e
              | Inr number \<Rightarrow>
                 (case (if action = ''buy''
                        then currency_value_conversion_targetamount bank ''CAD''
                               (currency book) number
                        else currency_value_conversion bank (currency book) ''CAD'' number) of
                    Inl e \<Rightarrow> Inl e
                  | Inr number_cad \<Rightarrow>
                      stock_loop self weights qty action bank rest (stock_value + number_cad)
                        (acc @ [\<lparr>ticker = stock, order_type = advice.order_type result,
                                  price = advice.price result, quantity = w * qty,
                                  val = number, value_cad = number_cad\<rparr>])))))"

text \<open>
  The ETF leg of \<^verbatim>\<open>calculate_converter_profit\<close>: \<^verbatim>\<open>result_etf\<close> and
  \<^verbatim>\<open>etf_value\<close>, from the book when \<^verbatim>\<open>etf_price is None\<close> and from the given
  price otherwise.
\<close>

definition etf_order ::
  "strategy \<Rightarrow> order_book \<Rightarrow> real \<Rightarrow> string \<Rightarrow> real option \<Rightarrow> error + (advice \<times> real)" where
  "etf_order self etf_data qty etf_action etf_price =
     (case etf_price of
        None \<Rightarrow>
         (case limit_order_assistant etf_data qty etf_action (get_slippage_tolerance self) of
            Inl e \<Rightarrow> Inl e
          | Inr result_etf \<Rightarrow>
             (case calculate_total_profit etf_data qty (advice.order_type result_etf)
                     etf_action (advice.price result_etf) of
                Inl e \<Rightarrow> Inl e
              | Inr etf_value \<Rightarrow> Inr (result_etf, etf_value)))
      | Some p \<Rightarrow> Inr (\<lparr>advice.order_type = ''limit'', advice.price = Some p\<rparr>, p * qty))"

definition calculate_converter_profit ::
  "strategy \<Rightarrow> (string \<times> order_book) list \<Rightarrow> (string \<rightharpoonup> real) \<Rightarrow> order_book \<Rightarrow> real
   \<Rightarrow> real \<Rightarrow> string \<Rightarrow> string \<Rightarrow> bank_account \<Rightarrow> real option \<Rightarrow> error + profit_info" where
  "calculate_converter_profit self stock_data weights etf_data qty convert_fee fee_currency
       action bank etf_price =
     (case stock_loop self weights qty action bank stock_data 0 [] of
        Inl e \<Rightarrow> Inl e
      | Inr (stock_value, acc) \<Rightarrow>
         (let etf_action = (if action = ''sell'' then ''buy'' else ''sell'')
          in case etf_order self etf_data qty etf_action etf_price of
               Inl e \<Rightarrow> Inl e
             | Inr (result_etf, etf_value) \<Rightarrow>
                (case (if etf_action = ''sell''
                       then currency_value_conversion bank (currency etf_data) ''CAD'' etf_value
                       else currency_value_conversion_targetamount bank ''CAD''
                              (currency etf_data) etf_value) of
                   Inl e \<Rightarrow> Inl e
                 | Inr etf_value_cad \<Rightarrow>
                    (case currency_value_conversion_targetamount bank ''CAD'' fee_currency
                            convert_fee of
                       Inl e \<Rightarrow> Inl e
                     | Inr convert_fee_cad \<Rightarrow>
                        Inr \<lparr>profit =
                               (if action = ''buy''
                                then etf_value_cad - stock_value - qty * convert_fee_cad
                                else stock_value - etf_value_cad - qty * convert_fee_cad),
                             legs = acc @ [\<lparr>ticker = ''ETF'',
                               order_type = advice.order_type result_etf,
                               price = advice.price result_etf, quantity = qty,
                               val = etf_value, value_cad = etf_value_cad\<rparr>]\<rparr>))))"

text \<open>
  The test \<^verbatim>\<open>p["profit"] > 0 and (p["profit"] / quantity + shift > threshold)\<close> of
  \<^verbatim>\<open>generate_convert_signal\<close>, with the value the signal takes when it holds; the
  division is evaluated only when the profit is positive, and raises on a quantity 0.
\<close>

definition threshold_signal :: "real \<Rightarrow> real \<Rightarrow> real \<Rightarrow> real \<Rightarrow> int \<Rightarrow> error + int" where
  "threshold_signal p qty shift threshold fired =
     (if p > 0
      then (if qty = 0 then Inl ZeroDivisionError
            else Inr (if p / qty + shift > threshold then fired else 0))
      else Inr 0)"

definition generate_convert_signal ::
  "strategy \<Rightarrow> (string \<times> order_book) list \<Rightarrow> (string \<rightharpoonup> real) \<Rightarrow> order_book \<Rightarrow> real
   \<Rightarrow> real \<Rightarrow> string \<Rightarrow> bank_account \<Rightarrow> real \<Rightarrow> real \<Rightarrow> real \<Rightarrow> error + (int \<times> leg list)" where
  "generate_convert_signal self stock_data weights etf_data qty convert_fee fee_currency
       bank price_shift create_threshold redeem_threshold =
     (case calculate_converter_profit self stock_data weights etf_data qty convert_fee
             fee_currency ''buy'' bank None of
        Inl e \<Rightarrow> Inl e
      | Inr create_ETF_profit \<Rightarrow>
         (case calculate_converter_profit self stock_data weights etf_data qty convert_fee
                 fee_currency ''sell'' bank None of
            Inl e \<Rightarrow> Inl e
          | Inr redeem_ETF_profit \<Rightarrow>
             (case threshold_signal (profit create_ETF_profit) qty price_shift
                     create_threshold 1 of
                Inl e \<Rightarrow> Inl e
              | Inr signal \<Rightarrow>
                 (case threshold_signal (profit redeem_ETF_profit) qty (- price_shift)
                         redeem_threshold (- 1) of
                    Inl e \<Rightarrow> Inl e
                  | Inr signal2 \<Rightarrow>
                      if create_threshold > redeem_threshold
                      then Inr (signal, legs create_ETF_profit)
                      else Inr (signal2, legs redeem_ETF_profit)))))"

text \<open>
  A book whose two sides both hold 1000 units at the price 9, without fee, so that the
  VWAP of unwinding 1000 units is 9 on either side.
\<close>

definition tender_book_example :: order_book where
  "tender_book_example = \<lparr>bid_head = [resting ''bid'' 9 1000],
     ask_head = [resting ''ask'' 9 1000],
     transaction_fee = 0, rebate_fee = 0, currency = ''CAD''\<rparr>"

text \<open>
  A basket of one stock quoted 10 on both sides against an ETF bid 13 and offered 8:
  creating earns 3 per unit and redeeming 2 per unit.
\<close>

definition stock_book_example :: order_book where
  "stock_book_example = \<lparr>bid_head = [resting ''bid'' 10 100],
     ask_head = [resting ''ask'' 10 100],
     transaction_fee = 0, rebate_fee = 0, currency = ''CAD''\<rparr>"

definition basket_example :: "(string \<times> order_book) list" where
  "basket_example = [(''S'', stock_book_example)]"

definition etf_book_example :: order_book where
  "etf_book_example = \<lparr>bid_head = [resting ''bid'' 13 100],
     ask_head = [resting ''ask'' 8 100],
     transaction_fee = 0, rebate_fee = 0, currency = ''CAD''\<rparr>"

section \<open>The position ledger: \<^verbatim>\<open>Asset\<close> and \<^verbatim>\<open>Portfolio\<close>\<close>

text \<open>
  A limit is \<^verbatim>\<open>float('inf')\<close> until it is set. The products \<^verbatim>\<open>limit * max_usage\<close>
  and what \<^verbatim>\<open>adjust_position\<close> computes from them are therefore IEEE values: a
  finite number (an exact real here), an infinity or NaN. The operations below are the
  ones the ledger applies to such values, with Python's results: every comparison with
  NaN is false, \<^verbatim>\<open>inf * 0\<close> is NaN, a division by zero raises, \<^verbatim>\<open>min(a, b)\<close> is
  \<open>b\<close> if \<^verbatim>\<open>b < a\<close> and \<open>a\<close> otherwise, and \<^verbatim>\<open>int\<close> truncates toward zero and
  raises on NaN and on an infinity.
\<close>

datatype limit = Unlimited | Limit real

datatype pyfloat = Num real | PInf | MInf | NaN

definition times_usage :: "limit \<Rightarrow> real \<Rightarrow> pyfloat" where
  "times_usage l u =
     (case l of
        Limit x \<Rightarrow> Num (x * u)
      | Unlimited \<Rightarrow> if u > 0 then PInf else if u < 0 then MInf else NaN)"

fun fl_less :: "pyfloat \<Rightarrow> pyfloat \<Rightarrow> bool" where
  "fl_less NaN b = False"
| "fl_less a NaN = False"
| "fl_less (Num x) (Num y) = (x < y)"
| "fl_less (Num x) PInf = True"
| "fl_less (Num x) MInf = False"
| "fl_less PInf b = False"
| "fl_less MInf MInf = False"
| "fl_less MInf b = True"

text \<open>\<open>exceeds x c\<close> is the comparison \<^verbatim>\<open>x > c\<close> of a finite \<open>x\<close> with a cap.\<close>

definition exceeds :: "real \<Rightarrow> pyfloat \<Rightarrow> bool" where
  "exceeds x c = fl_less c (Num x)"

fun fl_add :: "pyfloat \<Rightarrow> real \<Rightarrow> pyfloat" where
  "fl_add (Num x) r = Num (x + r)"
| "fl_add a r = a"

fun fl_sub :: "pyfloat \<Rightarrow> real \<Rightarrow> pyfloat" where
  "fl_sub (Num x) r = Num (x - r)"
| "fl_sub a r = a"

fun fl_abs :: "pyfloat \<Rightarrow> pyfloat" where
  "fl_abs (Num x) = Num \<bar>x\<bar>"
| "fl_abs MInf = PInf"
| "fl_abs a = a"

fun fl_div :: "pyfloat \<Rightarrow> real \<Rightarrow> error + pyfloat" where
  "fl_div a r =
     (if r = 0 then Inl ZeroDivisionError
      else (case a of
              Num x \<Rightarrow> Inr (Num (x / r))
            | PInf \<Rightarrow> Inr (if r > 0 then PInf else MInf)
            | MInf \<Rightarrow> Inr (if r > 0 then MInf else PInf)
            | NaN \<Rightarrow> Inr NaN))"

fun fl_mul :: "pyfloat \<Rightarrow> real \<Rightarrow> pyfloat" where
  "fl_mul (Num x) r = Num (x * r)"
| "fl_mul NaN r = NaN"
| "fl_mul PInf r = (if r > 0 then PInf else if r < 0 then MInf else NaN)"
| "fl_mul MInf r = (if r > 0 then MInf else if r < 0 then PInf else NaN)"

definition py_min :: "pyfloat \<Rightarrow> pyfloat \<Rightarrow> pyfloat" where
  "py_min a b = (if fl_less b a then b else a)"

fun py_int :: "pyfloat \<Rightarrow> error + int" where
  "py_int (Num x) = Inr (if x \<ge> 0 then \<lfloor>x\<rfloor> else \<lceil>x\<rceil>)"
| "py_int NaN = Inl ValueError"
| "py_int a = Inl OverflowError"

text \<open>The fields of \<^verbatim>\<open>Asset\<close> that the limit checks and the order gateway read.\<close>

record asset =
  name :: string
  currency :: string
  volume :: real
  maximum_trade_size :: real
  minimum_trade_size :: real
  is_tradeable :: bool
  is_shortable :: bool
  gross_limit :: limit
  net_limit :: limit
  limit_multiplier :: real

text \<open>
  \<^verbatim>\<open>Portfolio\<close>: the dictionary \<^verbatim>\<open>assets\<close> is an association list in insertion
  order (its keys are distinct); \<open>gross_position\<close> and \<open>net_position\<close> are the fields
  that the venue's limit report refreshes.
\<close>

record portfolio =
  assets :: "(string \<times> asset) list"
  gross_limit :: limit
  net_limit :: limit
  max_usage :: real
  gross_position :: real
  net_position :: real

text \<open>\<^verbatim>\<open>get_gross_position\<close> and \<^verbatim>\<open>get_net_position\<close>.\<close>

definition get_gross_position :: "portfolio \<Rightarrow> real" where
  "get_gross_position p =
     sum_list (map (\<lambda>(n, details). \<bar>asset.volume details * limit_multiplier details\<bar>)
       (assets p))"

definition get_net_position :: "portfolio \<Rightarrow> real" where
  "get_net_position p =
     sum_list (map (\<lambda>(n, details). asset.volume details * limit_multiplier details)
       (assets p))"

text \<open>
  The loop of \<^verbatim>\<open>check_portfolio_limits\<close> over \<^verbatim>\<open>self.assets.items()\<close>, carrying
  \<^verbatim>\<open>(gross_position, net_position)\<close>.
\<close>

fun portfolio_loop ::
  "(string \<times> asset) list \<Rightarrow> string \<Rightarrow> real \<Rightarrow> real \<Rightarrow> real \<Rightarrow> real \<times> real" where
  "portfolio_loop [] asset_name vol gross net = (gross, net)"
| "portfolio_loop ((nm, asset_obj) # rest) asset_name vol gross net =
     (if nm = upper asset_name
      then portfolio_loop rest asset_name vol
             (gross + \<bar>asset.volume asset_obj + vol\<bar>) (net + (asset.volume asset_obj + vol))
      else portfolio_loop rest asset_name vol
             (gross + \<bar>asset.volume asset_obj\<bar>) (net + asset.volume asset_obj))"

definition check_portfolio_limits :: "portfolio \<Rightarrow> string \<Rightarrow> real \<Rightarrow> bool" where
  "check_portfolio_limits p asset_name vol =
     (case portfolio_loop (assets p) asset_name vol 0 0 of
        (gross, net) \<Rightarrow>
          if exceeds gross (times_usage (portfolio.gross_limit p) (max_usage p)) then True
          else if exceeds \<bar>net\<bar> (times_usage (portfolio.net_limit p) (max_usage p)) then True
          else False)"

text \<open>
  \<^verbatim>\<open>Portfolio.check_limits\<close>: \<^verbatim>\<open>self.assets[asset_name]\<close> raises \<^verbatim>\<open>KeyError\<close> on an
  unknown name. The first test adds the signed \<^verbatim>\<open>volume\<close> of the transaction to
  \<^verbatim>\<open>abs(get_volume())\<close>.
\<close>

definition check_limits :: "portfolio \<Rightarrow> string \<Rightarrow> real \<Rightarrow> error + bool" where
  "check_limits p asset_name vol =
     (case map_of (assets p) asset_name of
        None \<Rightarrow> Inl KeyError
      | Some a \<Rightarrow>
          if exceeds (\<bar>asset.volume a\<bar> + vol) (times_usage (asset.gross_limit a) (max_usage p))
          then Inr True
          else if exceeds \<bar>asset.volume a + vol\<bar>
                    (times_usage (asset.net_limit a) (max_usage p))
          then Inr True
          else if check_portfolio_limits p asset_name vol then Inr True
          else Inr False)"

text \<open>
  \<^verbatim>\<open>check_bulk_limits\<close> returns \<^verbatim>\<open>True\<close> at the first transaction that
  \<^verbatim>\<open>check_limits\<close> flags, each checked on its own, and falls off its end otherwise:
  \<open>Inr None\<close> is the returned \<^verbatim>\<open>None\<close>.
\<close>

fun check_bulk_limits :: "portfolio \<Rightarrow> (string \<times> int) list \<Rightarrow> error + bool option" where
  "check_bulk_limits p [] = Inr None"
| "check_bulk_limits p ((nm, qty) # rest) =
     (case check_limits p nm (of_int qty) of
        Inl e \<Rightarrow> Inl e
      | Inr flagged \<Rightarrow> if flagged then Inr (Some True) else check_bulk_limits p rest)"

text \<open>
  \<^verbatim>\<open>check_bulk_portfolio_limits\<close>: the joint check of a batch against the portfolio
  caps, starting from the fields \<^verbatim>\<open>gross_position\<close> and \<^verbatim>\<open>net_position\<close>.
\<close>

fun bulk_loop ::
  "portfolio \<Rightarrow> (string \<times> int) list \<Rightarrow> real \<Rightarrow> real \<Rightarrow> error + (real \<times> real)" where
  "bulk_loop p [] gross net = Inr (gross, net)"
| "bulk_loop p ((nm, qty) # rest) gross net =
     (case map_of (assets p) nm of
        None \<Rightarrow> Inl KeyError
      | Some a \<Rightarrow>
          if asset.volume a * of_int qty < 0
          then (if \<bar>asset.volume a\<bar> > \<bar>of_int qty\<bar>
                then bulk_loop p rest (gross - \<bar>of_int qty\<bar>) (net + of_int qty)
                else bulk_loop p rest
                       (gross - \<bar>asset.volume a\<bar> + \<bar>of_int qty + asset.volume a\<bar>)
                       (net + of_int qty))
          else bulk_loop p rest (gross + \<bar>of_int qty\<bar>) (net + of_int qty))"

definition check_bulk_portfolio_limits ::
  "portfolio \<Rightarrow> (string \<times> int) list \<Rightarrow> error + bool" where
  "check_bulk_portfolio_limits p asset_quantity =
     (case bulk_loop p asset_quantity (gross_position p) (net_position p) of
        Inl e \<Rightarrow> Inl e
      | Inr (gross, net) \<Rightarrow>
          if exceeds gross (times_usage (portfolio.gross_limit p) (max_usage p)) then Inr True
          else if exceeds \<bar>net\<bar> (times_usage (portfolio.net_limit p) (max_usage p))
          then Inr True
          else Inr False)"

text \<open>
  The loop of \<^verbatim>\<open>adjust_position\<close> that accumulates \<^verbatim>\<open>total_gross_position\<close>:
  \<^verbatim>\<open>+abs(quantity)\<close> when the quantity has the sign of the position held, and
  \<^verbatim>\<open>-abs(quantity)\<close> otherwise (also when the position is flat).
\<close>

fun gross_loop :: "portfolio \<Rightarrow> (string \<times> int) list \<Rightarrow> real \<Rightarrow> error + real" where
  "gross_loop p [] total_gross_position = Inr total_gross_position"
| "gross_loop p ((nm, qty) # rest) total_gross_position =
     (case map_of (assets p) nm of
        None \<Rightarrow> Inl KeyError
      | Some a \<Rightarrow>
          if of_int qty * asset.volume a > 0
          then gross_loop p rest (total_gross_position + \<bar>of_int qty\<bar>)
          else gross_loop p rest (total_gross_position - \<bar>of_int qty\<bar>))"

text \<open>
  The ratio bounded by the net headroom, the first half of \<^verbatim>\<open>adjust_position\<close>;
  \<open>total_net_position\<close> is \<^verbatim>\<open>sum(asset_quantity.values())\<close>.
\<close>

definition net_ratio :: "pyfloat \<Rightarrow> real \<Rightarrow> real \<Rightarrow> error + pyfloat" where
  "net_ratio max_net net total_net_position =
     (if total_net_position * net > 0
      then (case fl_div (fl_sub max_net \<bar>net\<bar>) \<bar>total_net_position\<bar> of
              Inl e \<Rightarrow> Inl e
            | Inr x \<Rightarrow> Inr (py_min x (Num 1)))
      else if exceeds \<bar>net + total_net_position\<bar> max_net
      then (case fl_div (fl_add (fl_abs max_net) \<bar>net\<bar>) \<bar>total_net_position\<bar> of
              Inl e \<Rightarrow> Inl e
            | Inr x \<Rightarrow> Inr (py_min x (Num 1)))
      else Inr (Num 1))"

definition adjust_position :: "portfolio \<Rightarrow> (string \<times> int) list \<Rightarrow> error + pyfloat" where
  "adjust_position p asset_quantity =
     (let max_gross = times_usage (portfolio.gross_limit p) (max_usage p);
          max_net = times_usage (portfolio.net_limit p) (max_usage p)
      in if exceeds \<bar>net_position p\<bar> max_net \<or> exceeds (gross_position p) max_gross
         then Inr (Num 0)
         else
           (case net_ratio max_net (net_position p)
                   (of_int (sum_list (map snd asset_quantity))) of
              Inl e \<Rightarrow> Inl e
            | Inr ratio \<Rightarrow>
               (case gross_loop p asset_quantity 0 of
                  Inl e \<Rightarrow> Inl e
                | Inr total_gross_position \<Rightarrow>
                    if exceeds total_gross_position (fl_sub max_gross (gross_position p))
                    then (case fl_div (fl_sub max_gross (gross_position p))
                                 total_gross_position of
                            Inl e \<Rightarrow> Inl e
                          | Inr y \<Rightarrow> Inr (py_min ratio y))
                    else Inr ratio)))"

text \<open>
  The comprehension \<^verbatim>\<open>{nm: int(ratio * quantity) for ...}\<close> of
  \<^verbatim>\<open>compress_position\<close>.
\<close>

fun scale_batch :: "pyfloat \<Rightarrow> (string \<times> int) list \<Rightarrow> error + (string \<times> int) list" where
  "scale_batch ratio [] = Inr []"
| "scale_batch ratio ((nm, qty) # rest) =
     (case py_int (fl_mul ratio (of_int qty)) of
        Inl e \<Rightarrow> Inl e
      | Inr k \<Rightarrow>
         (case scale_batch ratio rest of
            Inl e \<Rightarrow> Inl e
          | Inr out \<Rightarrow> Inr ((nm, k) # out)))"

text \<open>
  \<^verbatim>\<open>compress_position\<close>: \<^verbatim>\<open>not self.check_bulk_limits(...)\<close> holds when the check
  returned \<^verbatim>\<open>None\<close>.
\<close>

definition compress_position ::
  "portfolio \<Rightarrow> (string \<times> int) list \<Rightarrow> error + (string \<times> int) list" where
  "compress_position p asset_quantity =
     (case check_bulk_limits p asset_quantity of
        Inl e \<Rightarrow> Inl e
      | Inr flagged \<Rightarrow>
          if flagged \<noteq> Some True then Inr asset_quantity
          else (case adjust_position p asset_quantity of
                  Inl e \<Rightarrow> Inl e
                | Inr ratio \<Rightarrow> scale_batch ratio asset_quantity))"

text \<open>
  The ledger once a batch has been filled: every quantity of the batch added to the
  volume of its asset. The source has no such function (fills reach the ledger through
  the venue's snapshot); the exposure that a batch results in is stated with it.
\<close>

definition after_fills :: "portfolio \<Rightarrow> (string \<times> int) list \<Rightarrow> portfolio" where
  "after_fills p batch =
     p\<lparr>assets := map (\<lambda>(n, a).
          (n, a\<lparr>asset.volume := asset.volume a
                   + (case map_of batch n of None \<Rightarrow> 0 | Some q \<Rightarrow> of_int q)\<rparr>))
        (assets p)\<rparr>"

text \<open>An asset with no position and the constructor's defaults, apart from its limits.\<close>

definition flat_asset :: "string \<Rightarrow> limit \<Rightarrow> limit \<Rightarrow> asset" where
  "flat_asset n g l = \<lparr>name = n, asset.currency = ''CAD'', asset.volume = 0,
     maximum_trade_size = 1000000, minimum_trade_size = 0, is_tradeable = True,
     is_shortable = True, asset.gross_limit = g, asset.net_limit = l,
     limit_multiplier = 1\<rparr>"

text \<open>
  Two flat assets without limits of their own in a portfolio capped at 100 gross and
  100 net, with the usage fraction 1.
\<close>

definition portfolio_example :: portfolio where
  "portfolio_example = \<lparr>assets = [(''A'', flat_asset ''A'' Unlimited Unlimited),
       (''B'', flat_asset ''B'' Unlimited Unlimited)],
     portfolio.gross_limit = Limit 100, portfolio.net_limit = Limit 100, max_usage = 1,
     gross_position = 0, net_position = 0\<rparr>"

text \<open>
  One flat asset with the gross limit 100 and the net limit 1000, in a portfolio capped
  at 1000 gross and net.
\<close>

definition limits_example :: portfolio where
  "limits_example = \<lparr>assets = [(''A'', flat_asset ''A'' (Limit 100) (Limit 1000))],
     portfolio.gross_limit = Limit 1000, portfolio.net_limit = Limit 1000, max_usage = 1,
     gross_position = 0, net_position = 0\<rparr>"

section \<open>The order gateway: \<^verbatim>\<open>ApiTrading.place_order\<close>\<close>

text \<open>
  The request parameters that \<^verbatim>\<open>place_order\<close> posts to \<^verbatim>\<open>/orders\<close>, and the
  venue's reply: a status code with a JSON body, either the order record that a status
  200 carries or an error message. Reading a key that the body lacks raises
  \<^verbatim>\<open>KeyError\<close>.
\<close>

record payload =
  req_ticker :: string
  req_type :: string
  req_quantity :: real
  req_action :: string
  req_dry_run :: int
  req_price :: "real option"

record order_json =
  resp_price :: real
  resp_quantity :: real
  resp_quantity_filled :: real
  resp_action :: string
  resp_tick :: int
  resp_order_id :: int
  resp_type :: string
  resp_vwap :: "real option"

datatype json = Order_json order_json | Message_json string

record response =
  status_code :: int
  body :: json

text \<open>
  The state of \<^verbatim>\<open>ApiTrading\<close> that \<^verbatim>\<open>place_order\<close> reads and writes: the
  portfolio, the order registers and the deque of submission times. \<open>posted\<close> records
  the requests sent through \<^verbatim>\<open>self.session.post\<close>, in order: the network calls made.
\<close>

record api_trading = portfolio +
  history_orders :: "int option \<rightharpoonup> order"
  completed_orders :: "int option set"
  active_orders :: "int option set"
  order_timestamps :: "real list"
  posted :: "payload list"

text \<open>What \<^verbatim>\<open>place_order\<close> returns: \<^verbatim>\<open>-1\<close> or the order placed.\<close>

datatype placed = Failure | Placed order

text \<open>
  The part of \<^verbatim>\<open>place_order\<close> before the request: the early returns and the two
  clippings of the quantity. The result is \<open>None\<close> for a return of \<^verbatim>\<open>-1\<close> and the
  quantity of the request otherwise. The sell test of a non-shortable asset adds the
  quantity to the position: \<^verbatim>\<open>get_volume() + quantity < 0\<close>.
\<close>

definition order_quantity :: "asset \<Rightarrow> real \<Rightarrow> string \<Rightarrow> real option" where
  "order_quantity a qty act =
     (if \<not> is_tradeable a then None
      else if \<not> is_shortable a \<and> lower act = ''sell'' \<and> asset.volume a < 0 then None
      else
        (let qty = (if \<not> is_shortable a \<and> lower act = ''sell'' \<and> asset.volume a + qty < 0
                    then asset.volume a else qty);
             qty = (if qty > maximum_trade_size a then maximum_trade_size a else qty)
         in Some qty))"

text \<open>
  The part of \<^verbatim>\<open>place_order\<close> after the request: a status 200 builds the
  \<^verbatim>\<open>Order\<close>, files it as completed or active and records the submission time; every
  other status reads the message and returns \<^verbatim>\<open>-1\<close>.
\<close>

definition handle_response ::
  "real \<Rightarrow> api_trading \<Rightarrow> response \<Rightarrow> (error + placed) \<times> api_trading" where
  "handle_response now st resp =
     (if status_code resp = 200
      then (case body resp of
              Message_json m \<Rightarrow> (Inl KeyError, st)
            | Order_json j \<Rightarrow>
               (case new_Order (resp_price j) (resp_quantity j) (resp_quantity_filled j)
                       (if lower (resp_action j) = ''buy'' then ''bid'' else ''ask'')
                       (Some (resp_tick j)) (Some (resp_order_id j)) (resp_type j)
                       (resp_vwap j) of
                  Inl e \<Rightarrow> (Inl e, st)
                | Inr order' \<Rightarrow>
                    (Inr (Placed order'),
                     (if order.volume order' = 0
                      then st\<lparr>history_orders := (history_orders st)
                                 (order.order_id order' \<mapsto> order'),
                               completed_orders :=
                                 insert (order.order_id order') (completed_orders st),
                               order_timestamps := order_timestamps st @ [now]\<rparr>
                      else st\<lparr>history_orders := (history_orders st)
                                 (order.order_id order' \<mapsto> order'),
                               active_orders :=
                                 insert (order.order_id order') (active_orders st),
                               order_timestamps := order_timestamps st @ [now]\<rparr>))))
      else (case body resp of
              Message_json m \<Rightarrow> (Inr Failure, st)
            | Order_json j \<Rightarrow> (Inl KeyError, st)))"

text \<open>
  \<^verbatim>\<open>place_order\<close>, with the venue as the function \<open>post\<close> from requests to replies
  and \<open>now\<close> the value of \<^verbatim>\<open>time()\<close>. The state is returned also when the call
  raises, so that the requests made before the exception are kept.
\<close>

definition place_order ::
  "(payload \<Rightarrow> response) \<Rightarrow> real \<Rightarrow> api_trading \<Rightarrow> string \<Rightarrow> string \<Rightarrow> real \<Rightarrow> string
   \<Rightarrow> real option \<Rightarrow> (error + placed) \<times> api_trading" where
  "place_order post now st tick_name typ qty act limit_price =
     (if qty = 0 then (Inr Failure, st)
      else (case map_of (assets st) (upper tick_name) of
              None \<Rightarrow> (Inl KeyError, st)
            | Some a \<Rightarrow>
               (case order_quantity a qty act of
                  None \<Rightarrow> (Inr Failure, st)
                | Some q \<Rightarrow>
                   (let request = \<lparr>req_ticker = upper tick_name, req_type = upper typ,
                          req_quantity = q, req_action = upper act, req_dry_run = 0,
                          req_price = limit_price\<rparr>
                    in handle_response now (st\<lparr>posted := posted st @ [request]\<rparr>)
                         (post request)))))"

text \<open>
  A trading state that holds 100 units of the non-shortable, tradeable asset
  \<^verbatim>\<open>JOY\<close>, and one that is short 50 units of it; no order has been sent.
\<close>

definition joy_asset :: "real \<Rightarrow> asset" where
  "joy_asset v = \<lparr>name = ''JOY'', asset.currency = ''CAD'', asset.volume = v,
     maximum_trade_size = 1000000, minimum_trade_size = 0, is_tradeable = True,
     is_shortable = False, asset.gross_limit = Unlimited, asset.net_limit = Unlimited,
     limit_multiplier = 1\<rparr>"

definition trading_example :: "real \<Rightarrow> api_trading" where
  "trading_example v = \<lparr>assets = [(''JOY'', joy_asset v)],
     portfolio.gross_limit = Unlimited, portfolio.net_limit = Unlimited, max_usage = 1,
     gross_position = \<bar>v\<bar>, net_position = v,
     history_orders = Map.empty, completed_orders = {}, active_orders = {},
     order_timestamps = [], posted = []\<rparr>"

section \<open>Facts about the case functions\<close>

lemma upper_CAD: "upper ''CAD'' = ''CAD''" "upper ''cad'' = ''CAD''"
  by code_simp+

lemma upper_USD: "upper ''USD'' = ''USD''" "upper ''usd'' = ''USD''"
  by code_simp+

lemma upper_EUR: "upper ''EUR'' = ''EUR''"
  by code_simp

lemma lower_buy_sell: "lower ''buy'' = ''buy''" "lower ''sell'' = ''sell''"
  by code_simp+

section \<open>Exchange rates and conversions\<close>

lemma get_exchange_rate_direct:
  assumes "direct_rate acct (upper f) (upper t) = Some r" and "upper f \<noteq> upper t"
  shows "get_exchange_rate acct f t ''buy'' = Inr (ask r)"
    and "get_exchange_rate acct f t ''sell'' = Inr (bid r)"
  using assms by (simp_all add: get_exchange_rate_def lower_buy_sell)

lemma get_exchange_rate_reverse:
  assumes "direct_rate acct (upper f) (upper t) = None"
    and "direct_rate acct (upper t) (upper f) = Some r" and "upper f \<noteq> upper t"
  shows "get_exchange_rate acct f t ''buy'' =
           (if bid r = 0 then Inl ZeroDivisionError else Inr (1 / bid r))"
    and "get_exchange_rate acct f t ''sell'' =
           (if ask r = 0 then Inl ZeroDivisionError else Inr (1 / ask r))"
  using assms by (simp_all add: get_exchange_rate_def lower_buy_sell)

text \<open>
  C2, as the claim states it, fails: on the table \<open>fx_example\<close> the \<^verbatim>\<open>'sell'\<close> rate
  of CAD to USD is the bid 1, yet the positive amount 4 is converted to 2, that is with
  the ask 2 that \<^verbatim>\<open>'buy'\<close> returns; and the negative amount -4 is converted to -4,
  with the bid.
\<close>

theorem conversion_positive_uses_sell_counterexample:
  "get_exchange_rate fx_example ''CAD'' ''USD'' ''sell'' = Inr 1
   \<and> get_exchange_rate fx_example ''CAD'' ''USD'' ''buy'' = Inr 2
   \<and> currency_value_conversion fx_example ''CAD'' ''USD'' 4 = Inr 2
   \<and> currency_value_conversion fx_example ''CAD'' ''USD'' 4 \<noteq> Inr (4 / 1)
   \<and> currency_value_conversion fx_example ''CAD'' ''USD'' (- 4) = Inr (- 4)
   \<and> currency_value_conversion fx_example ''CAD'' ''USD'' (- 4) \<noteq> Inr (- 4 / 2)"
  by (simp add: currency_value_conversion_def get_exchange_rate_def direct_rate_def
      fx_example_def upper_CAD upper_USD lower_buy_sell)

text \<open>
  C2 (amended): for every stored pair of two distinct currencies, a positive amount is
  converted with the rate that \<^verbatim>\<open>get_exchange_rate\<close> returns for action \<^verbatim>\<open>'buy'\<close>
  and a negative (or zero) amount with the rate for action \<^verbatim>\<open>'sell'\<close>. When the
  direction \<open>from \<rightarrow> to\<close> is stored with the entry \<open>r\<close>, these are the ask and the bid
  of \<open>r\<close>; when only the reverse direction \<open>to \<rightarrow> from\<close> is stored, they are the
  inverted bid and the inverted ask. A zero rate raises \<^verbatim>\<open>ZeroDivisionError\<close>.
\<close>

theorem currency_value_conversion_sides:
  assumes pair: "upper from_currency \<noteq> upper to_currency"
  shows "(direct_rate acct (upper from_currency) (upper to_currency) = Some r \<longrightarrow>
            get_exchange_rate acct from_currency to_currency ''buy'' = Inr (ask r)
            \<and> get_exchange_rate acct from_currency to_currency ''sell'' = Inr (bid r)
            \<and> currency_value_conversion acct from_currency to_currency amount =
                (if 0 < amount
                 then (if ask r = 0 then Inl ZeroDivisionError else Inr (amount / ask r))
                 else (if bid r = 0 then Inl ZeroDivisionError else Inr (amount / bid r))))
       \<and> (direct_rate acct (upper from_currency) (upper to_currency) = None
            \<and> direct_rate acct (upper to_currency) (upper from_currency) = Some r \<longrightarrow>
            currency_value_conversion acct from_currency to_currency amount =
                (if 0 < amount
                 then (if bid r = 0 then Inl ZeroDivisionError
                       else Inr (amount / (1 / bid r)))
                 else (if ask r = 0 then Inl ZeroDivisionError
                       else Inr (amount / (1 / ask r)))))"
proof (intro conjI impI)
  assume stored: "direct_rate acct (upper from_currency) (upper to_currency) = Some r"
  show "get_exchange_rate acct from_currency to_currency ''buy'' = Inr (ask r)"
    by (rule get_exchange_rate_direct(1) [OF stored pair])
  show "get_exchange_rate acct from_currency to_currency ''sell'' = Inr (bid r)"
    by (rule get_exchange_rate_direct(2) [OF stored pair])
  show "currency_value_conversion acct from_currency to_currency amount =
                (if 0 < amount
                 then (if ask r = 0 then Inl ZeroDivisionError else Inr (amount / ask r))
                 else (if bid r = 0 then Inl ZeroDivisionError else Inr (amount / bid r)))"
    using get_exchange_rate_direct [OF stored pair]
    by (simp add: currency_value_conversion_def)
next
  assume "direct_rate acct (upper from_currency) (upper to_currency) = None
      \<and> direct_rate acct (upper to_currency) (upper from_currency) = Some r"
  then have none: "direct_rate acct (upper from_currency) (upper to_currency) = None"
    and rev: "direct_rate acct (upper to_currency) (upper from_currency) = Some r"
    by simp_all
  show "currency_value_conversion acct from_currency to_currency amount =
                (if 0 < amount
                 then (if bid r = 0 then Inl ZeroDivisionError
                       else Inr (amount / (1 / bid r)))
                 else (if ask r = 0 then Inl ZeroDivisionError
                       else Inr (amount / (1 / ask r))))"
    using get_exchange_rate_reverse [OF none rev pair]
    by (simp add: currency_value_conversion_def)
qed

theorem currency_value_conversion_sides_witness:
  "upper ''cad'' \<noteq> upper ''usd'' \<and> upper ''usd'' \<noteq> upper ''cad''
   \<and> direct_rate fx_example (upper ''cad'') (upper ''usd'') = Some \<lparr>bid = 1, ask = 2\<rparr>
   \<and> direct_rate fx_example (upper ''usd'') (upper ''cad'') = None
   \<and> currency_value_conversion fx_example ''cad'' ''usd'' 4 = Inr 2
   \<and> currency_value_conversion fx_example ''cad'' ''usd'' (- 4) = Inr (- 4)
   \<and> currency_value_conversion fx_example ''usd'' ''cad'' 4 = Inr 4
   \<and> currency_value_conversion fx_example ''usd'' ''cad'' (- 4) = Inr (- 8)"
proof -
  have stored: "direct_rate fx_example (upper ''cad'') (upper ''usd'')
      = Some \<lparr>bid = 1, ask = 2\<rparr>"
    by (simp add: direct_rate_def fx_example_def upper_CAD upper_USD)
  have none: "direct_rate fx_example (upper ''usd'') (upper ''cad'') = None"
    by (simp add: direct_rate_def fx_example_def upper_CAD upper_USD)
  have pair: "upper ''cad'' \<noteq> upper ''usd''"
    by (simp add: upper_CAD upper_USD)
  from currency_value_conversion_sides [OF pair, of fx_example "\<lparr>bid = 1, ask = 2\<rparr>" 4]
    currency_value_conversion_sides [OF pair, of fx_example "\<lparr>bid = 1, ask = 2\<rparr>" "- 4"]
    currency_value_conversion_sides [OF pair [symmetric], of fx_example
      "\<lparr>bid = 1, ask = 2\<rparr>" 4]
    currency_value_conversion_sides [OF pair [symmetric], of fx_example
      "\<lparr>bid = 1, ask = 2\<rparr>" "- 4"]
    stored none pair
  show ?thesis by simp
qed

text \<open>
  C6: on a table that stores the single direction \<open>base \<rightarrow> quote\<close> with
  \<open>0 < bid < ask\<close>, converting \<open>x > 0\<close> from base to quote and back succeeds and
  returns \<open>x / ask / (1 / bid)\<close>, which is strictly smaller than \<open>x\<close> in magnitude.
\<close>

theorem fx_round_trip_strictly_smaller:
  assumes table: "exchange_rates acct =
      [upper base \<mapsto> [upper quote \<mapsto> \<lparr>bid = b, ask = a\<rparr>]]"
    and pair: "upper base \<noteq> upper quote"
    and spread: "0 < b" "b < a"
    and x: "0 < x"
  shows "\<exists>y z. currency_value_conversion acct base quote x = Inr y
           \<and> currency_value_conversion acct quote base y = Inr z
           \<and> z = x / a / (1 / b) \<and> \<bar>z\<bar> < \<bar>x\<bar> \<and> z \<noteq> x"
proof -
  have fwd: "direct_rate acct (upper base) (upper quote) = Some \<lparr>bid = b, ask = a\<rparr>"
    by (simp add: direct_rate_def table)
  have bwd: "direct_rate acct (upper quote) (upper base) = None"
    using pair by (simp add: direct_rate_def table)
  have a: "0 < a" using spread by simp
  have y: "0 < x / a" using x a by simp
  have leg1: "currency_value_conversion acct base quote x = Inr (x / a)"
    using get_exchange_rate_direct(1) [OF fwd pair] x a
    by (simp add: currency_value_conversion_def)
  have leg2: "currency_value_conversion acct quote base (x / a) = Inr (x / a / (1 / b))"
    using get_exchange_rate_reverse(1) [OF bwd fwd pair [symmetric]] y spread
    by (simp add: currency_value_conversion_def)
  have "x * b < x * a" using x spread by simp
  then have lt: "x / a / (1 / b) < x"
    using a by (simp add: field_simps)
  have "0 < x * b / a"
    using x a spread(1) by (intro divide_pos_pos mult_pos_pos)
  then have pos: "0 < x / a / (1 / b)" by simp
  from leg1 leg2 lt pos x show ?thesis by simp
qed

theorem fx_round_trip_strictly_smaller_witness:
  "exchange_rates fx_example = [upper ''cad'' \<mapsto> [upper ''usd'' \<mapsto> \<lparr>bid = 1, ask = 2\<rparr>]]
   \<and> upper ''cad'' \<noteq> upper ''usd'' \<and> (0::real) < 1 \<and> (1::real) < 2 \<and> (0::real) < 4
   \<and> (\<exists>y z. currency_value_conversion fx_example ''cad'' ''usd'' 4 = Inr y
         \<and> currency_value_conversion fx_example ''usd'' ''cad'' y = Inr z
         \<and> z = 4 / 2 / (1 / 1) \<and> \<bar>z\<bar> < \<bar>4\<bar> \<and> z \<noteq> 4)"
proof -
  have table: "exchange_rates fx_example
      = [upper ''cad'' \<mapsto> [upper ''usd'' \<mapsto> \<lparr>bid = 1, ask = 2\<rparr>]]"
    by (simp add: fx_example_def upper_CAD upper_USD)
  have pair: "upper ''cad'' \<noteq> upper ''usd''"
    by (simp add: upper_CAD upper_USD)
  from fx_round_trip_strictly_smaller [OF table pair, of 4] table pair
  show ?thesis by simp
qed

text \<open>
  C9: \<^verbatim>\<open>set_foreign_exchange_rate(base, quote, bid, ask)\<close> replaces the whole entry of
  \<open>base\<close>: afterwards the entry holds the new quote only, every other quote currency
  \<open>q'\<close> has no direct rate under \<open>base\<close> whatever was stored before, and a lookup
  of \<open>base \<rightarrow> q'\<close> is resolved from the reverse entry \<open>q' \<rightarrow> base\<close> alone
  (\<^verbatim>\<open>ValueError\<close> when there is none).
\<close>

theorem set_foreign_exchange_rate_replaces_entry:
  assumes other: "upper q' \<noteq> upper quote_currency"
  shows "exchange_rates (set_foreign_exchange_rate acct base_currency quote_currency b a)
             (upper base_currency)
           = Some [upper quote_currency \<mapsto> \<lparr>bid = b, ask = a\<rparr>]
         \<and> direct_rate (set_foreign_exchange_rate acct base_currency quote_currency b a)
             (upper base_currency) (upper q') = None
         \<and> (upper q' \<noteq> upper base_currency \<longrightarrow> action \<in> {''buy'', ''sell''} \<longrightarrow>
             get_exchange_rate (set_foreign_exchange_rate acct base_currency quote_currency b a)
                 base_currency q' action =
               (case direct_rate acct (upper q') (upper base_currency) of
                  None \<Rightarrow> Inl ValueError
                | Some r \<Rightarrow>
                   (let d = (if action = ''sell'' then ask r else bid r)
                    in if d = 0 then Inl ZeroDivisionError else Inr (1 / d))))"
proof -
  define acct' where "acct' = set_foreign_exchange_rate acct base_currency quote_currency b a"
  have entry: "exchange_rates acct' (upper base_currency)
      = Some [upper quote_currency \<mapsto> \<lparr>bid = b, ask = a\<rparr>]"
    by (simp add: acct'_def set_foreign_exchange_rate_def)
  have gone: "direct_rate acct' (upper base_currency) (upper q') = None"
    using other by (simp add: direct_rate_def entry)
  have lookup: "get_exchange_rate acct' base_currency q' action =
           (case direct_rate acct (upper q') (upper base_currency) of
              None \<Rightarrow> Inl ValueError
            | Some r \<Rightarrow>
               (let d = (if action = ''sell'' then ask r else bid r)
                in if d = 0 then Inl ZeroDivisionError else Inr (1 / d)))"
    if nb: "upper q' \<noteq> upper base_currency" and act: "action \<in> {''buy'', ''sell''}"
  proof -
    have rev: "direct_rate acct' (upper q') (upper base_currency)
        = direct_rate acct (upper q') (upper base_currency)"
      using nb by (simp add: direct_rate_def acct'_def set_foreign_exchange_rate_def)
    from act have low: "lower action = action"
      using lower_buy_sell by auto
    show ?thesis
      using nb act gone rev low
      by (auto simp add: get_exchange_rate_def Let_def split: option.splits)
  qed
  from entry gone lookup show ?thesis
    unfolding acct'_def by blast
qed

theorem set_foreign_exchange_rate_replaces_entry_witness:
  "upper ''USD'' \<noteq> upper ''EUR''
   \<and> direct_rate fx_example (upper ''CAD'') (upper ''USD'') = Some \<lparr>bid = 1, ask = 2\<rparr>
   \<and> direct_rate (set_foreign_exchange_rate fx_example ''CAD'' ''EUR'' 3 4)
        (upper ''CAD'') (upper ''USD'') = None
   \<and> get_exchange_rate (set_foreign_exchange_rate fx_example ''CAD'' ''EUR'' 3 4)
        ''CAD'' ''USD'' ''buy'' = Inl ValueError"
proof -
  have other: "upper ''USD'' \<noteq> upper ''EUR''"
    by (simp add: upper_USD upper_EUR)
  have nb: "upper ''USD'' \<noteq> upper ''CAD''"
    by (simp add: upper_USD upper_CAD)
  have before: "direct_rate fx_example (upper ''CAD'') (upper ''USD'')
      = Some \<lparr>bid = 1, ask = 2\<rparr>"
    by (simp add: direct_rate_def fx_example_def upper_CAD upper_USD)
  have norev: "direct_rate fx_example (upper ''USD'') (upper ''CAD'') = None"
    by (simp add: direct_rate_def fx_example_def upper_CAD upper_USD)
  from set_foreign_exchange_rate_replaces_entry
      [OF other, of fx_example "''CAD''" 3 4 "''buy''"]
    other nb before norev
  show ?thesis by simp
qed

section \<open>Insertion into a side of the book\<close>

lemma insert_chain_cases:
  "insert_chain better chain ord =
     (if chain = [] then [ord]
      else if dropWhile (\<lambda>c. better (order.price c) (order.price ord)) chain = []
      then chain @ [ord]
      else if takeWhile (\<lambda>c. better (order.price c) (order.price ord)) chain = []
      then chain
      else takeWhile (\<lambda>c. better (order.price c) (order.price ord)) chain @ [ord]
           @ dropWhile (\<lambda>c. better (order.price c) (order.price ord)) chain)"
  by (simp add: insert_chain_def Let_def split: list.splits)

lemma insert_chain_sorted:
  assumes sorted: "sorted_wrt R (map order.price chain)"
    and better: "\<And>a b. better a b \<Longrightarrow> R a b"
    and worse: "\<And>a b. \<not> better a b \<Longrightarrow> R b a"
    and trans: "\<And>a b c. R a b \<Longrightarrow> R b c \<Longrightarrow> R a c"
  shows "sorted_wrt R (map order.price (insert_chain better chain ord))"
proof -
  let ?P = "\<lambda>c. better (order.price c) (order.price ord)"
  let ?before = "takeWhile ?P chain" and ?rest = "dropWhile ?P chain"
  have split: "chain = ?before @ ?rest" by simp
  have "sorted_wrt R (map order.price (?before @ ?rest))"
    using sorted by simp
  then have s: "sorted_wrt R (map order.price ?before)"
    "sorted_wrt R (map order.price ?rest)"
    "\<forall>x\<in>set ?before. \<forall>y\<in>set ?rest. R (order.price x) (order.price y)"
    by (simp_all add: sorted_wrt_append del: takeWhile_dropWhile_id)
  have before: "\<forall>x\<in>set ?before. R (order.price x) (order.price ord)"
    using better by (auto dest: set_takeWhileD)
  have rest: "\<forall>y\<in>set ?rest. R (order.price ord) (order.price y)"
  proof (cases ?rest)
    case Nil
    then show ?thesis by (metis empty_iff empty_set)
  next
    case (Cons c cs)
    then have "\<not> ?P c"
      using hd_dropWhile [of ?P chain] by simp
    then have c: "R (order.price ord) (order.price c)" by (rule worse)
    from s(2) Cons have "\<forall>y\<in>set cs. R (order.price c) (order.price y)" by simp
    with c trans have "\<forall>y\<in>set cs. R (order.price ord) (order.price y)" by blast
    with c Cons show ?thesis by simp
  qed
  have mid: "sorted_wrt R (map order.price (?before @ [ord] @ ?rest))"
    using s before rest by (simp add: sorted_wrt_append)
  have last: "sorted_wrt R (map order.price (chain @ [ord]))" if "?rest = []"
  proof -
    from that have "\<forall>x\<in>set chain. ?P x" by simp
    then have "\<forall>x\<in>set chain. R (order.price x) (order.price ord)"
      using better by blast
    with sorted show ?thesis by (simp add: sorted_wrt_append)
  qed
  show ?thesis
    unfolding insert_chain_cases using sorted mid last by simp
qed

text \<open>
  Insertion keeps the chain of asks ascending and the chain of bids descending by price
  (removal only takes orders out of a chain), so the price order that the VWAP bounds
  below rely on is an invariant of the book.
\<close>

lemma insert_order_keeps_price_order:
  assumes "sorted_wrt (\<lambda>a b. a \<le> b) (map order.price (ask_head book))"
    and "sorted_wrt (\<lambda>a b. a \<ge> b) (map order.price (bid_head book))"
  shows "sorted_wrt (\<lambda>a b. a \<le> b) (map order.price (ask_head (insert_order book ord)))
       \<and> sorted_wrt (\<lambda>a b. a \<ge> b) (map order.price (bid_head (insert_order book ord)))"
proof -
  have asks: "sorted_wrt (\<lambda>a b. a \<le> b)
      (map order.price (insert_chain (\<lambda>a b. a < b) (ask_head book) ord))"
    using assms(1) by (rule insert_chain_sorted) auto
  have bids: "sorted_wrt (\<lambda>a b. a \<ge> b)
      (map order.price (insert_chain (\<lambda>a b. a > b) (bid_head book) ord))"
    using assms(2) by (rule insert_chain_sorted) auto
  from asks bids assms show ?thesis
    by (simp add: insert_order_def)
qed

text \<open>
  An order that is better than the head is linked before it and is not reached from the
  head afterwards: the chain is unchanged.
\<close>

lemma insert_before_head_is_lost:
  "ask_head (insert_order ladder_example (resting ''ask'' (19 / 2) 50))
     = ask_head ladder_example"
  by (simp add: insert_order_def insert_chain_def ladder_example_def resting_def)

section \<open>Walking a side of the book\<close>

lemma total_volume_loop_sum:
  "total_volume_loop l t = t + sum_list (map order.volume l)"
  by (induction l arbitrary: t) simp_all

lemma vwap_loop_zero: "vwap_loop l t 0 = (t, 0)"
  by (cases l) simp_all

lemma vwap_loop_unfilled:
  assumes "0 \<le> u" and "\<forall>x\<in>set l. 0 \<le> order.volume x"
  shows "snd (vwap_loop l t u) = max 0 (u - sum_list (map order.volume l))"
  using assms
proof (induction l arbitrary: t u)
  case Nil
  then show ?case by simp
next
  case (Cons c rest)
  have nn: "0 \<le> sum_list (map order.volume rest)"
    using Cons.prems(2) by (intro sum_list_nonneg) auto
  show ?case
  proof (cases "order.volume c < u")
    case True
    with Cons show ?thesis by simp
  next
    case False
    with Cons.prems nn show ?thesis
      by (simp add: vwap_loop_zero)
  qed
qed

lemma vwap_loop_bounds:
  assumes "0 \<le> u" and "\<forall>x\<in>set l. 0 \<le> order.volume x"
    and "\<forall>x\<in>set (consumed l u). lo \<le> order.price x \<and> order.price x \<le> hi"
  shows "t + lo * (u - snd (vwap_loop l t u)) \<le> fst (vwap_loop l t u)
       \<and> fst (vwap_loop l t u) \<le> t + hi * (u - snd (vwap_loop l t u))"
  using assms
proof (induction l arbitrary: t u)
  case Nil
  then show ?case by simp
next
  case (Cons c rest)
  show ?case
  proof (cases "0 < u")
    case False
    then show ?thesis by simp
  next
    case pos: True
    have pc: "lo \<le> order.price c" "order.price c \<le> hi"
      using Cons.prems(3) pos by simp_all
    have vc: "0 \<le> order.volume c" using Cons.prems(2) by simp
    show ?thesis
    proof (cases "order.volume c < u")
      case True
      let ?t = "t + order.price c * order.volume c" and ?u = "u - order.volume c"
      have "\<forall>x\<in>set (consumed rest ?u). lo \<le> order.price x \<and> order.price x \<le> hi"
        using Cons.prems(3) pos True by simp
      with Cons.IH [of ?u ?t] Cons.prems(2) True
      have ih: "?t + lo * (?u - snd (vwap_loop rest ?t ?u)) \<le> fst (vwap_loop rest ?t ?u)"
               "fst (vwap_loop rest ?t ?u) \<le> ?t + hi * (?u - snd (vwap_loop rest ?t ?u))"
        by simp_all
      have l1: "lo * order.volume c \<le> order.price c * order.volume c"
        using pc vc by (simp add: mult_right_mono)
      have l2: "order.price c * order.volume c \<le> hi * order.volume c"
        using pc vc by (simp add: mult_right_mono)
      from ih l1 l2 pos True show ?thesis
        by (simp add: algebra_simps)
    next
      case False
      have l1: "lo * u \<le> order.price c * u" using pc pos by (simp add: mult_right_mono)
      have l2: "order.price c * u \<le> hi * u" using pc pos by (simp add: mult_right_mono)
      from False pos l1 l2 show ?thesis by (simp add: vwap_loop_zero)
    qed
  qed
qed

lemma consumed_sorted:
  "sorted_wrt R (map order.price l) \<Longrightarrow> sorted_wrt R (map order.price (consumed l u))"
proof (induction l arbitrary: u)
  case Nil
  then show ?case by simp
next
  case (Cons c rest)
  have sub: "set (consumed rest v) \<subseteq> set rest" for v
  proof (induction rest arbitrary: v)
    case Nil
    then show ?case by simp
  next
    case (Cons a as)
    then show ?case by (auto split: if_splits)
  qed
  from Cons sub show ?case by (auto split: if_splits)
qed

lemma sorted_wrt_hd_last:
  assumes "sorted_wrt R xs" and "x \<in> set xs" and "\<And>a. R a a" 
  shows "R (hd xs) x \<and> R x (last xs)"
  using assms
proof (induction xs)
  case Nil
  then show ?case by simp
next
  case (Cons a as)
  then show ?case by (cases as) (auto simp: last_in_set)
qed

lemma consumed_nonempty: "l \<noteq> [] \<Longrightarrow> 0 < u \<Longrightarrow> consumed l u \<noteq> []"
  by (cases l) simp_all

text \<open>
  C5: on a book whose side consumed holds orders of non-negative resting volume, sorted
  by price (asks ascending, bids descending), and for a quantity \<open>q > 0\<close>, the no-fee
  VWAP is \<^verbatim>\<open>None\<close> exactly when \<open>q\<close> exceeds the total volume of the side consumed;
  otherwise it is a price between the price of the first and the price of the last order
  consumed. On the ask ladder \<^verbatim>\<open>[(10,100),(11,200)]\<close> buying 150 gives
  \<open>(10*100 + 11*50) / 150\<close> and buying 301 gives \<^verbatim>\<open>None\<close>.
\<close>

theorem vwap_no_fee_between_best_and_worst:
  assumes q: "0 < q"
    and act: "lower action \<in> {''buy'', ''sell''}"
    and vols: "\<forall>x\<in>set (side_head book (lower action)). 0 \<le> order.volume x"
    and asc: "sorted_wrt (\<lambda>a b. a \<le> b) (map order.price (ask_head book))"
    and desc: "sorted_wrt (\<lambda>a b. a \<ge> b) (map order.price (bid_head book))"
  shows "(calculate_vwap_market_price book q action False = Inr None
            \<longleftrightarrow> (if lower action = ''buy'' then get_total_ask_volume book
                 else get_total_bid_volume book) < q)
       \<and> ((if lower action = ''buy'' then get_total_ask_volume book
            else get_total_bid_volume book) \<ge> q \<longrightarrow>
           consumed (side_head book (lower action)) q \<noteq> [] \<and>
           (\<exists>v. calculate_vwap_market_price book q action False = Inr (Some v)
              \<and> (lower action = ''buy'' \<longrightarrow>
                   order.price (hd (consumed (side_head book (lower action)) q)) \<le> v
                   \<and> v \<le> order.price (last (consumed (side_head book (lower action)) q)))
              \<and> (lower action = ''sell'' \<longrightarrow>
                   order.price (last (consumed (side_head book (lower action)) q)) \<le> v
                   \<and> v \<le> order.price (hd (consumed (side_head book (lower action)) q)))))
       \<and> calculate_vwap_market_price ladder_example 150 ''buy'' False
           = Inr (Some ((10 * 100 + 11 * 50) / 150))
       \<and> calculate_vwap_market_price ladder_example 301 ''buy'' False = Inr None"
proof -
  define l where "l = side_head book (lower action)"
  define total where "total = (if lower action = ''buy'' then get_total_ask_volume book
       else get_total_bid_volume book)"
  define t where "t = fst (vwap_loop l 0 q)"
  define u where "u = snd (vwap_loop l 0 q)"
  have total: "total = sum_list (map order.volume l)"
    using act by (auto simp add: total_def l_def side_head_def get_total_ask_volume_def
        get_total_bid_volume_def total_volume_loop_sum)
  have u: "u = max 0 (q - total)"
    unfolding u_def total using q vols by (intro vwap_loop_unfilled) (simp_all add: l_def)
  have res: "calculate_vwap_market_price book q action False
      = (if 0 < u then Inr None else Inr (Some (t / q)))"
    using act q
    by (auto simp add: calculate_vwap_market_price_def Let_def l_def t_def u_def
        split: prod.splits)
  have first: "calculate_vwap_market_price book q action False = Inr None \<longleftrightarrow> total < q"
    using u by (auto simp add: res)
  have second: "consumed l q \<noteq> [] \<and>
           (\<exists>v. calculate_vwap_market_price book q action False = Inr (Some v)
              \<and> (lower action = ''buy'' \<longrightarrow>
                   order.price (hd (consumed l q)) \<le> v
                   \<and> v \<le> order.price (last (consumed l q)))
              \<and> (lower action = ''sell'' \<longrightarrow>
                   order.price (last (consumed l q)) \<le> v
                   \<and> v \<le> order.price (hd (consumed l q))))"
    if enough: "q \<le> total"
  proof -
    from enough u have u0: "u = 0" by simp
    from enough q total have "l \<noteq> []" by auto
    then have ne: "consumed l q \<noteq> []" using q by (rule consumed_nonempty)
    have val: "calculate_vwap_market_price book q action False = Inr (Some (t / q))"
      using u0 by (simp add: res)
    have bound: "lo \<le> t / q \<and> t / q \<le> hi"
      if "\<forall>x\<in>set (consumed l q). lo \<le> order.price x \<and> order.price x \<le> hi" for lo hi
    proof -
      from vwap_loop_bounds [of q l lo hi 0] q vols that
      have "lo * q \<le> t \<and> t \<le> hi * q"
        using u0 by (simp add: l_def t_def u_def)
      with q show ?thesis by (simp add: field_simps)
    qed
    have buy: "order.price (hd (consumed l q)) \<le> t / q
        \<and> t / q \<le> order.price (last (consumed l q))" if b: "lower action = ''buy''"
    proof (rule bound, rule ballI)
      fix x assume x: "x \<in> set (consumed l q)"
      from b asc have "sorted_wrt (\<lambda>a b. a \<le> b) (map order.price (consumed l q))"
        by (simp add: l_def side_head_def consumed_sorted)
      from sorted_wrt_hd_last [OF this, of "order.price x"] x ne
      show "order.price (hd (consumed l q)) \<le> order.price x
          \<and> order.price x \<le> order.price (last (consumed l q))"
        by (simp add: hd_map last_map)
    qed
    have sell: "order.price (last (consumed l q)) \<le> t / q
        \<and> t / q \<le> order.price (hd (consumed l q))" if s: "lower action = ''sell''"
    proof (rule bound, rule ballI)
      fix x assume x: "x \<in> set (consumed l q)"
      from s desc have "sorted_wrt (\<lambda>a b. a \<ge> b) (map order.price (consumed l q))"
        by (simp add: l_def side_head_def consumed_sorted)
      from sorted_wrt_hd_last [OF this, of "order.price x"] x ne
      show "order.price (last (consumed l q)) \<le> order.price x
          \<and> order.price x \<le> order.price (hd (consumed l q))"
        by (simp add: hd_map last_map)
    qed
    from ne val buy sell show ?thesis by blast
  qed
  have ex1: "calculate_vwap_market_price ladder_example 150 ''buy'' False
           = Inr (Some ((10 * 100 + 11 * 50) / 150))"
    by (simp add: calculate_vwap_market_price_def side_head_def ladder_example_def
        resting_def lower_buy_sell)
  have ex2: "calculate_vwap_market_price ladder_example 301 ''buy'' False = Inr None"
    by (simp add: calculate_vwap_market_price_def side_head_def ladder_example_def
        resting_def lower_buy_sell)
  from first second ex1 ex2 show ?thesis
    unfolding l_def total_def by blast
qed

theorem vwap_no_fee_between_best_and_worst_witness:
  "(0::real) < 150 \<and> lower ''buy'' \<in> {''buy'', ''sell''}
   \<and> map order.volume (side_head ladder_example (lower ''buy'')) = [100, 200]
   \<and> sorted_wrt (\<lambda>a b. a \<le> b) (map order.price (ask_head ladder_example))
   \<and> sorted_wrt (\<lambda>a b. a \<ge> b) (map order.price (bid_head ladder_example))
   \<and> get_total_ask_volume ladder_example = 300
   \<and> map order.price (consumed (ask_head ladder_example) 150) = [10, 11]
   \<and> (\<exists>v. calculate_vwap_market_price ladder_example 150 ''buy'' False = Inr (Some v)
          \<and> 10 \<le> v \<and> v \<le> 11)"
proof -
  have q: "(0::real) < 150" by simp
  have act: "lower ''buy'' \<in> {''buy'', ''sell''}" by (simp add: lower_buy_sell)
  have vols: "\<forall>x\<in>set (side_head ladder_example (lower ''buy'')). 0 \<le> order.volume x"
    by (simp add: side_head_def ladder_example_def resting_def lower_buy_sell)
  have asc: "sorted_wrt (\<lambda>a b. a \<le> b) (map order.price (ask_head ladder_example))"
    by (simp add: ladder_example_def resting_def)
  have desc: "sorted_wrt (\<lambda>a b. a \<ge> b) (map order.price (bid_head ladder_example))"
    by (simp add: ladder_example_def resting_def)
  have total: "get_total_ask_volume ladder_example = 300"
    by (simp add: get_total_ask_volume_def ladder_example_def resting_def)
  have cons: "consumed (ask_head ladder_example) 150
      = [resting ''ask'' 10 100, resting ''ask'' 11 200]"
    by (simp add: ladder_example_def resting_def)
  from vwap_no_fee_between_best_and_worst [OF q act vols asc desc] total cons
  have "\<exists>v. calculate_vwap_market_price ladder_example 150 ''buy'' False = Inr (Some v)
          \<and> 10 \<le> v \<and> v \<le> 11"
    by (auto simp add: lower_buy_sell side_head_def resting_def)
  moreover have "map order.price (consumed (ask_head ladder_example) 150) = [10, 11]"
    by (simp add: cons resting_def)
  moreover have "map order.volume (side_head ladder_example (lower ''buy'')) = [100, 200]"
    by (simp add: side_head_def ladder_example_def resting_def lower_buy_sell)
  ultimately show ?thesis
    using q act asc desc total by blast
qed

text \<open>
  C10: \<^verbatim>\<open>calculate_total_profit\<close> with order type \<^verbatim>\<open>'market'\<close> is not total: on
  every book whose consumed side (orders of non-negative resting volume) has a total depth
  below the requested quantity, the internal VWAP is \<^verbatim>\<open>None\<close> and the function raises
  \<^verbatim>\<open>TypeError\<close> instead of returning a value.
\<close>

theorem calculate_total_profit_market_raises:
  assumes vols: "\<forall>x\<in>set (side_head book action). 0 \<le> order.volume x"
    and shallow: "(if action = ''buy'' then get_total_ask_volume book
                   else get_total_bid_volume book) < trade_volume"
  shows "calculate_vwap_market_price book trade_volume
             (if action = ''buy'' then ''buy'' else ''sell'') True = Inr None
         \<and> calculate_total_profit book trade_volume ''market'' action limit_price
             = Inl TypeError"
proof -
  define a where "a = (if action = ''buy'' then ''buy'' else ''sell'')"
  define l where "l = side_head book action"
  have side: "side_head book (lower a) = l"
    by (simp add: a_def l_def side_head_def lower_buy_sell)
  have total: "sum_list (map order.volume l) < trade_volume"
    using shallow
    by (simp add: l_def side_head_def get_total_ask_volume_def get_total_bid_volume_def
        total_volume_loop_sum split: if_splits)
  have "0 \<le> sum_list (map order.volume l)"
    using vols by (intro sum_list_nonneg) (auto simp add: l_def)
  with total have pos: "0 < trade_volume" by simp
  then have "snd (vwap_loop l 0 trade_volume)
      = max 0 (trade_volume - sum_list (map order.volume l))"
    using vols by (intro vwap_loop_unfilled) (simp_all add: l_def)
  with total have left: "0 < snd (vwap_loop l 0 trade_volume)" by simp
  have act: "lower a \<in> {''buy'', ''sell''}"
    by (simp add: a_def lower_buy_sell)
  have none: "calculate_vwap_market_price book trade_volume a True = Inr None"
    using left act side
    by (auto simp add: calculate_vwap_market_price_def Let_def split: prod.splits)
  then have "calculate_total_profit book trade_volume ''market'' action limit_price
      = Inl TypeError"
    by (simp add: calculate_total_profit_def a_def)
  with none show ?thesis by (simp add: a_def)
qed

theorem calculate_total_profit_market_raises_witness:
  "map order.volume (side_head ladder_example ''buy'') = [100, 200]
   \<and> get_total_ask_volume ladder_example = 300 \<and> (300::real) < 301
   \<and> calculate_vwap_market_price ladder_example 301 ''buy'' True = Inr None
   \<and> calculate_total_profit ladder_example 301 ''market'' ''buy'' None = Inl TypeError"
proof -
  have vols: "\<forall>x\<in>set (side_head ladder_example ''buy''). 0 \<le> order.volume x"
    by (simp add: side_head_def ladder_example_def resting_def)
  have total: "get_total_ask_volume ladder_example = 300"
    by (simp add: get_total_ask_volume_def ladder_example_def resting_def)
  then have shallow: "(if ''buy'' = ''buy'' then get_total_ask_volume ladder_example
      else get_total_bid_volume ladder_example) < 301"
    by simp
  have "map order.volume (side_head ladder_example ''buy'') = [100, 200]"
    by (simp add: side_head_def ladder_example_def resting_def)
  with calculate_total_profit_market_raises [OF vols shallow, of None] total
  show ?thesis by simp
qed

text \<open>
  C7, as the claim states it, fails: for the sell-tender of 1000 units at 9.5, on a book
  whose unwind VWAP for 1000 units is 9 on either side, with both thresholds 200,
  \<^verbatim>\<open>tender_signal2\<close> returns \<^verbatim>\<open>(0, 0)\<close>, not the signal 1 with the edge 500.
\<close>

theorem tender_scenario_rejected_counterexample:
  "calculate_vwap_market_price tender_book_example 1000 ''buy'' True = Inr (Some 9)
   \<and> calculate_vwap_market_price tender_book_example 1000 ''sell'' True = Inr (Some 9)
   \<and> tender_signal2 ''sell'' (19 / 2) 1000 tender_book_example 200 200 = Inr (0, 0)
   \<and> tender_signal2 ''sell'' (19 / 2) 1000 tender_book_example 200 200 \<noteq> Inr (1, 500)"
  by (simp add: tender_signal2_def calculate_vwap_market_price_def side_head_def
      tender_book_example_def resting_def lower_buy_sell)

text \<open>
  C7 (amended): the edge that \<^verbatim>\<open>tender_signal2\<close> compares with the threshold is per
  unit, the difference between the tender price and the unwind VWAP, never multiplied by
  the volume. Whenever the unwind VWAP \<open>v\<close> exists, the result is either accept
  \<^verbatim>\<open>(1, e)\<close> with \<open>\<bar>e\<bar> = \<bar>tender_price - v\<bar>\<close> and \<open>e\<close> above the threshold of the
  tender's side, or reject \<^verbatim>\<open>(0, 0)\<close>; it is reject whenever
  \<open>\<bar>tender_price - v\<bar>\<close> exceeds neither threshold. In the scenario (sell-tender, volume
  1000, price 9.5, unwind VWAP 9, threshold 200) the per-unit edge has magnitude 0.5 and
  the signal is reject.
\<close>

theorem tender_signal2_per_unit_edge:
  assumes vwap: "calculate_vwap_market_price book tender_volume
        (if lower tender_action = ''sell'' then ''buy'' else ''sell'') True = Inr (Some v)"
  shows "(\<exists>s e. tender_signal2 tender_action tender_price tender_volume book
                  buy_threshold sell_threshold = Inr (s, e)
            \<and> (s = 1 \<or> (s = 0 \<and> e = 0))
            \<and> (s = 1 \<longrightarrow> \<bar>e\<bar> = \<bar>tender_price - v\<bar>
                  \<and> e > (if lower tender_action = ''buy'' then buy_threshold
                         else sell_threshold)))
       \<and> (\<bar>tender_price - v\<bar> \<le> buy_threshold \<and> \<bar>tender_price - v\<bar> \<le> sell_threshold
            \<longrightarrow> tender_signal2 tender_action tender_price tender_volume book
                  buy_threshold sell_threshold = Inr (0, 0))
       \<and> tender_signal2 ''sell'' (19 / 2) 1000 tender_book_example 200 200 = Inr (0, 0)"
proof -
  have scen: "tender_signal2 ''sell'' (19 / 2) 1000 tender_book_example 200 200 = Inr (0, 0)"
    by (simp add: tender_signal2_def calculate_vwap_market_price_def side_head_def
      tender_book_example_def resting_def lower_buy_sell)
  from vwap scen show ?thesis
    by (auto simp add: tender_signal2_def Let_def)
qed

theorem tender_signal2_per_unit_edge_witness:
  "calculate_vwap_market_price tender_book_example 1000
        (if lower ''sell'' = ''sell'' then ''buy'' else ''sell'') True = Inr (Some 9)
   \<and> \<bar>19 / 2 - 9\<bar> \<le> (200::real)
   \<and> tender_signal2 ''sell'' (19 / 2) 1000 tender_book_example 200 200 = Inr (0, 0)
   \<and> calculate_vwap_market_price tender_book_example 1000
        (if lower ''buy'' = ''sell'' then ''buy'' else ''sell'') True = Inr (Some 9)
   \<and> tender_signal2 ''buy'' (19 / 2) 1000 tender_book_example (1 / 5) (1 / 5)
        = Inr (1, 1 / 2)"
proof -
  have vwap: "calculate_vwap_market_price tender_book_example 1000
        (if lower ''sell'' = ''sell'' then ''buy'' else ''sell'') True = Inr (Some 9)"
    by (simp add: calculate_vwap_market_price_def side_head_def
      tender_book_example_def resting_def lower_buy_sell)
  have vwap': "calculate_vwap_market_price tender_book_example 1000
        (if lower ''buy'' = ''sell'' then ''buy'' else ''sell'') True = Inr (Some 9)"
    by (simp add: calculate_vwap_market_price_def side_head_def
      tender_book_example_def resting_def lower_buy_sell)
  have small: "\<bar>19 / 2 - 9\<bar> \<le> (200::real)" by simp
  have accept: "tender_signal2 ''buy'' (19 / 2) 1000 tender_book_example (1 / 5) (1 / 5)
        = Inr (1, 1 / 2)"
    by (simp add: tender_signal2_def calculate_vwap_market_price_def side_head_def
      tender_book_example_def resting_def lower_buy_sell)
  from tender_signal2_per_unit_edge [OF vwap, of "19 / 2" 200 200]
    tender_signal2_per_unit_edge [OF vwap', of "19 / 2" "1 / 5" "1 / 5"]
    vwap vwap' small accept
  show ?thesis by simp
qed

section \<open>The conversion signal\<close>

lemma vwap_zero_quantity:
  "calculate_vwap_market_price book 0 action cc \<noteq> Inr x"
  by (auto simp add: calculate_vwap_market_price_def Let_def vwap_loop_zero)

lemma limit_order_assistant_zero: "limit_order_assistant book 0 side tol \<noteq> Inr x"
proof -
  have "calculate_vwap_market_price book 0 side False \<noteq> Inr y" for y
    by (rule vwap_zero_quantity)
  then show ?thesis
    by (auto simp add: limit_order_assistant_def Let_def split: list.splits sum.splits)
qed

lemma converter_profit_quantity:
  assumes "calculate_converter_profit self sd w etf q fee fc action bank None = Inr c"
  shows "q \<noteq> 0"
proof
  assume "q = 0"
  have "etf_order self etf 0 a None \<noteq> Inr y" for a y
    using limit_order_assistant_zero [of etf a]
    by (auto simp add: etf_order_def split: sum.splits)
  with assms \<open>q = 0\<close> show False
    by (auto simp add: calculate_converter_profit_def Let_def split: sum.splits prod.splits)
qed

text \<open>
  C8: whenever both profit computations of \<^verbatim>\<open>generate_convert_signal\<close> return, the
  function returns the create-direction result (its signal and its leg list) if
  \<open>create_threshold > redeem_threshold\<close> and the redeem-direction result otherwise. The
  selection compares the two thresholds only: when both threshold conditions fire, the
  create direction is returned exactly when \<open>create_threshold > redeem_threshold\<close>,
  whichever of the two profits is larger.
\<close>

theorem generate_convert_signal_selects_by_thresholds:
  assumes create: "calculate_converter_profit self stock_data weights etf_data q fee
        fee_currency ''buy'' bank None = Inr c"
    and redeem: "calculate_converter_profit self stock_data weights etf_data q fee
        fee_currency ''sell'' bank None = Inr r"
  shows "generate_convert_signal self stock_data weights etf_data q fee fee_currency bank
           shift create_threshold redeem_threshold =
           (if create_threshold > redeem_threshold
            then Inr (if profit c > 0 \<and> profit c / q + shift > create_threshold
                      then 1 else 0, legs c)
            else Inr (if profit r > 0 \<and> profit r / q - shift > redeem_threshold
                      then - 1 else 0, legs r))
       \<and> (profit c > 0 \<and> profit c / q + shift > create_threshold
            \<and> profit r > 0 \<and> profit r / q - shift > redeem_threshold \<longrightarrow>
          generate_convert_signal self stock_data weights etf_data q fee fee_currency bank
           shift create_threshold redeem_threshold =
           (if create_threshold > redeem_threshold then Inr (1, legs c)
            else Inr (- 1, legs r)))"
proof -
  from converter_profit_quantity [OF create] have q: "q \<noteq> 0" .
  show ?thesis
    using q by (simp add: generate_convert_signal_def create redeem threshold_signal_def)
qed

lemma create_example:
  "calculate_converter_profit \<lparr>slippage_tolerance = None\<rparr> basket_example [''S'' \<mapsto> 1]
     etf_book_example 10 0 ''CAD'' ''buy'' fx_example None
   = Inr \<lparr>profit = 30, legs =
       [\<lparr>ticker = ''S'', order_type = ''market'', price = None, quantity = 10,
         val = 100, value_cad = 100\<rparr>,
        \<lparr>ticker = ''ETF'', order_type = ''market'', price = None, quantity = 10,
         val = 130, value_cad = 130\<rparr>]\<rparr>"
  by (simp add: calculate_converter_profit_def basket_example_def stock_book_example_def
      etf_book_example_def etf_order_def limit_order_assistant_def calculate_total_profit_def
      calculate_vwap_market_price_def side_head_def resting_def get_slippage_tolerance_def
      currency_value_conversion_def currency_value_conversion_targetamount_def
      get_exchange_rate_def upper_CAD lower_buy_sell)

lemma redeem_example:
  "calculate_converter_profit \<lparr>slippage_tolerance = None\<rparr> basket_example [''S'' \<mapsto> 1]
     etf_book_example 10 0 ''CAD'' ''sell'' fx_example None
   = Inr \<lparr>profit = 20, legs =
       [\<lparr>ticker = ''S'', order_type = ''market'', price = None, quantity = 10,
         val = 100, value_cad = 100\<rparr>,
        \<lparr>ticker = ''ETF'', order_type = ''market'', price = None, quantity = 10,
         val = 80, value_cad = 80\<rparr>]\<rparr>"
  by (simp add: calculate_converter_profit_def basket_example_def stock_book_example_def
      etf_book_example_def etf_order_def limit_order_assistant_def calculate_total_profit_def
      calculate_vwap_market_price_def side_head_def resting_def get_slippage_tolerance_def
      currency_value_conversion_def currency_value_conversion_targetamount_def
      get_exchange_rate_def upper_CAD lower_buy_sell)

theorem generate_convert_signal_selects_by_thresholds_witness:
  "generate_convert_signal \<lparr>slippage_tolerance = None\<rparr> basket_example [''S'' \<mapsto> 1]
     etf_book_example 10 0 ''CAD'' fx_example 0 1 1
   = Inr (- 1,
       [\<lparr>ticker = ''S'', order_type = ''market'', price = None, quantity = 10,
         val = 100, value_cad = 100\<rparr>,
        \<lparr>ticker = ''ETF'', order_type = ''market'', price = None, quantity = 10,
         val = 80, value_cad = 80\<rparr>])
   \<and> generate_convert_signal \<lparr>slippage_tolerance = None\<rparr> basket_example [''S'' \<mapsto> 1]
     etf_book_example 10 0 ''CAD'' fx_example 0 (3 / 2) 1
   = Inr (1,
       [\<lparr>ticker = ''S'', order_type = ''market'', price = None, quantity = 10,
         val = 100, value_cad = 100\<rparr>,
        \<lparr>ticker = ''ETF'', order_type = ''market'', price = None, quantity = 10,
         val = 130, value_cad = 130\<rparr>])"
  using generate_convert_signal_selects_by_thresholds
      [OF create_example redeem_example, of 0 1 1]
    generate_convert_signal_selects_by_thresholds
      [OF create_example redeem_example, of 0 "3 / 2" 1]
  by simp

section \<open>Position limits and the compression of a batch\<close>

lemma upper_AB: "upper ''A'' = ''A''" "upper ''B'' = ''B''"
  by code_simp+

lemma check_A: "check_limits portfolio_example ''A'' 60 = Inr False"
  by (simp add: check_limits_def check_portfolio_limits_def portfolio_example_def
      flat_asset_def exceeds_def times_usage_def upper_AB)

lemma check_B: "check_limits portfolio_example ''B'' 60 = Inr False"
  by (simp add: check_limits_def check_portfolio_limits_def portfolio_example_def
      flat_asset_def exceeds_def times_usage_def upper_AB)

text \<open>
  C1: the claim is that \<^verbatim>\<open>compress_position\<close> always returns a batch whose resulting
  gross and absolute net exposure are within the caps. The code does not achieve this.
  On \<open>portfolio_example\<close> (flat, caps 100 and 100) the batch \<^verbatim>\<open>{A: 60, B: 60}\<close>
  passes \<^verbatim>\<open>check_bulk_limits\<close>, which checks each transaction on its own, and is
  returned unchanged, for a gross and net exposure of 120; the joint check
  \<^verbatim>\<open>check_bulk_portfolio_limits\<close> flags the same batch. The batch
  \<^verbatim>\<open>{A: 150, B: -150}\<close> is flagged, \<^verbatim>\<open>adjust_position\<close> returns the ratio 1 for it
  (a quantity on a flat position counts as reducing the gross exposure), and it is
  returned unchanged, for a gross exposure of 300.
\<close>

theorem compress_position_exceeds_caps:
  "\<bar>net_position portfolio_example\<bar> \<le> 100 \<and> gross_position portfolio_example \<le> 100
   \<and> times_usage (portfolio.gross_limit portfolio_example) (max_usage portfolio_example)
        = Num 100
   \<and> times_usage (portfolio.net_limit portfolio_example) (max_usage portfolio_example)
        = Num 100
   \<and> compress_position portfolio_example [(''A'', 60), (''B'', 60)]
        = Inr [(''A'', 60), (''B'', 60)]
   \<and> get_gross_position (after_fills portfolio_example [(''A'', 60), (''B'', 60)]) = 120
   \<and> \<bar>get_net_position (after_fills portfolio_example [(''A'', 60), (''B'', 60)])\<bar> = 120
   \<and> check_bulk_portfolio_limits portfolio_example [(''A'', 60), (''B'', 60)] = Inr True
   \<and> check_bulk_limits portfolio_example [(''A'', 150), (''B'', - 150)] = Inr (Some True)
   \<and> adjust_position portfolio_example [(''A'', 150), (''B'', - 150)] = Inr (Num 1)
   \<and> compress_position portfolio_example [(''A'', 150), (''B'', - 150)]
        = Inr [(''A'', 150), (''B'', - 150)]
   \<and> get_gross_position (after_fills portfolio_example [(''A'', 150), (''B'', - 150)]) = 300"
proof -
  have c1: "compress_position portfolio_example [(''A'', 60), (''B'', 60)]
        = Inr [(''A'', 60), (''B'', 60)]"
    using check_A check_B by (simp add: compress_position_def)
  have g1: "get_gross_position (after_fills portfolio_example [(''A'', 60), (''B'', 60)]) = 120"
    by (simp add: get_gross_position_def after_fills_def portfolio_example_def flat_asset_def)
  have n1: "\<bar>get_net_position (after_fills portfolio_example [(''A'', 60), (''B'', 60)])\<bar> = 120"
    by (simp add: get_net_position_def after_fills_def portfolio_example_def flat_asset_def)
  have b1: "check_bulk_portfolio_limits portfolio_example [(''A'', 60), (''B'', 60)] = Inr True"
    by (simp add: check_bulk_portfolio_limits_def portfolio_example_def
      flat_asset_def exceeds_def times_usage_def)
  have f2: "check_bulk_limits portfolio_example [(''A'', 150), (''B'', - 150)] = Inr (Some True)"
    by (simp add: check_limits_def check_portfolio_limits_def portfolio_example_def
      flat_asset_def exceeds_def times_usage_def upper_AB)
  have a2: "adjust_position portfolio_example [(''A'', 150), (''B'', - 150)] = Inr (Num 1)"
    by (simp add: adjust_position_def net_ratio_def portfolio_example_def
      flat_asset_def exceeds_def times_usage_def)
  have c2: "compress_position portfolio_example [(''A'', 150), (''B'', - 150)]
        = Inr [(''A'', 150), (''B'', - 150)]"
    unfolding compress_position_def f2 a2 by simp
  have g2: "get_gross_position (after_fills portfolio_example [(''A'', 150), (''B'', - 150)]) = 300"
    by (simp add: get_gross_position_def after_fills_def portfolio_example_def flat_asset_def)
  have caps: "times_usage (portfolio.gross_limit portfolio_example) (max_usage portfolio_example)
        = Num 100"
    "times_usage (portfolio.net_limit portfolio_example) (max_usage portfolio_example)
        = Num 100"
    "\<bar>net_position portfolio_example\<bar> \<le> 100" "gross_position portfolio_example \<le> 100"
    by (simp_all add: times_usage_def portfolio_example_def)
  from c1 g1 n1 b1 f2 a2 c2 g2 caps show ?thesis by blast
qed

text \<open>
  C3: the claim is that the gross test of the per-instrument check compares
  \<open>\<bar>volume\<bar> + \<bar>delta\<bar>\<close> with the cap. The code adds the signed delta: on
  \<open>limits_example\<close> (asset \<^verbatim>\<open>A\<close> flat, gross limit 100, usage 1) the delta -200
  has \<open>\<bar>0\<bar> + \<bar>-200\<bar> = 200 > 100\<close>, yet \<^verbatim>\<open>check_limits\<close> reports no violation;
  the delta +200 is reported.
\<close>

theorem check_limits_signed_gross:
  "map_of (assets limits_example) ''A'' = Some (flat_asset ''A'' (Limit 100) (Limit 1000))
   \<and> exceeds (\<bar>asset.volume (flat_asset ''A'' (Limit 100) (Limit 1000))\<bar> + \<bar>- 200\<bar>)
        (times_usage (Limit 100) (max_usage limits_example))
   \<and> check_limits limits_example ''A'' (- 200) = Inr False
   \<and> check_limits limits_example ''A'' 200 = Inr True"
  by (simp add: check_limits_def check_portfolio_limits_def limits_example_def
      flat_asset_def exceeds_def times_usage_def upper_AB)

text \<open>
  What does hold of \<^verbatim>\<open>compress_position\<close>: a batch that passes
  \<^verbatim>\<open>check_bulk_limits\<close> is returned as it is, and \<^verbatim>\<open>int\<close> truncates toward zero.
\<close>

lemma compress_position_compliant:
  "check_bulk_limits p batch = Inr None \<Longrightarrow> compress_position p batch = Inr batch"
  by (simp add: compress_position_def)

lemma py_int_truncates:
  "py_int (Num x) = Inr k \<Longrightarrow>
     \<bar>real_of_int k\<bar> \<le> \<bar>x\<bar> \<and> \<bar>x\<bar> - \<bar>real_of_int k\<bar> < 1
     \<and> (0 \<le> x \<longrightarrow> 0 \<le> k) \<and> (x \<le> 0 \<longrightarrow> k \<le> 0)"
  by (auto split: if_splits) linarith+

text \<open>The three tests of \<^verbatim>\<open>check_limits\<close> on a known asset.\<close>

lemma check_limits_tests:
  assumes "map_of (assets p) asset_name = Some a"
  shows "check_limits p asset_name delta =
           Inr (exceeds (\<bar>asset.volume a\<bar> + delta)
                  (times_usage (asset.gross_limit a) (max_usage p))
                \<or> exceeds \<bar>asset.volume a + delta\<bar>
                  (times_usage (asset.net_limit a) (max_usage p))
                \<or> check_portfolio_limits p asset_name delta)"
  using assms by (simp add: check_limits_def)

section \<open>Submitting an order\<close>

lemma upper_JOY: "upper ''JOY'' = ''JOY''" "upper ''market'' = ''MARKET''"
  "upper ''sell'' = ''SELL''"
  by code_simp+

lemma handle_response_posted: "posted (snd (handle_response now st resp)) = posted st"
  by (simp add: handle_response_def split: json.splits sum.splits)

text \<open>
  C4: the claim is that a sell of a non-shortable asset that would flip the position
  negative is submitted with the quantity clipped to the position. The code tests
  \<^verbatim>\<open>get_volume() + quantity < 0\<close>, which no positive quantity satisfies on a
  non-negative position: with 100 units held, the sell of 150 is posted with the
  quantity 150, whatever the venue replies.
\<close>

theorem place_order_sell_not_clipped:
  "asset.volume (joy_asset 100) = 100 \<and> \<not> is_shortable (joy_asset 100)
   \<and> is_tradeable (joy_asset 100) \<and> (100::real) - 150 < 0
   \<and> order_quantity (joy_asset 100) 150 ''sell'' = Some 150
   \<and> posted (snd (place_order post now (trading_example 100) ''JOY'' ''market'' 150 ''sell''
        None))
      = [\<lparr>req_ticker = ''JOY'', req_type = ''MARKET'', req_quantity = 150,
          req_action = ''SELL'', req_dry_run = 0, req_price = None\<rparr>]"
  by (simp add: place_order_def order_quantity_def trading_example_def joy_asset_def
      handle_response_posted upper_JOY lower_buy_sell Let_def)

text \<open>
  The other half of C4 holds: on a negative position of a non-shortable asset a sell
  returns \<^verbatim>\<open>-1\<close> and leaves the state, with the requests made, as it was.
\<close>

lemma place_order_short_fails_fast:
  assumes "map_of (assets st) (upper tick_name) = Some a"
    and "\<not> is_shortable a" and "lower act = ''sell''" and "asset.volume a < 0"
  shows "place_order post now st tick_name typ qty act limit_price = (Inr Failure, st)"
  using assms by (simp add: place_order_def order_quantity_def)

lemma place_order_short_fails_fast_example:
  "place_order post now (trading_example (- 50)) ''JOY'' ''market'' 150 ''sell'' None
   = (Inr Failure, trading_example (- 50))"
  by (simp add: place_order_def order_quantity_def trading_example_def joy_asset_def
      upper_JOY lower_buy_sell)

end
